theory Spec2Isabelle
  imports Complex_Main
begin

section \<open>Python values shared by both modules\<close>

text \<open>
  The exceptions the modelled code can raise.  A raise is the left injection of a sum,
  a normal return the right one.
\<close>

datatype error = AttributeError | TypeError | ValueError | IndexError | NotImplementedError

definition bind_result :: "error + 'a \<Rightarrow> ('a \<Rightarrow> error + 'b) \<Rightarrow> error + 'b" where
  "bind_result m f = (case m of Inl e \<Rightarrow> Inl e | Inr v \<Rightarrow> f v)"

text \<open>
  \<^verbatim>\<open>Segment\<close>: the enum is declared in another module; its members here are the
  four that \<^verbatim>\<open>frame_reader.py\<close> lists in its segment tables.
\<close>

datatype Segment = THORAX | CLAVICLE | SCAPULA | HUMERUS

text \<open>Python's \<^verbatim>\<open>sub in s\<close> on strings: \<open>sub\<close> occurs as a contiguous block of \<open>s\<close>.\<close>

fun starts_with :: "string \<Rightarrow> string \<Rightarrow> bool" where
  "starts_with s [] = True"
| "starts_with [] (p # ps) = False"
| "starts_with (c # cs) (p # ps) = (c = p \<and> starts_with cs ps)"

fun str_in :: "string \<Rightarrow> string \<Rightarrow> bool" where
  "str_in sub [] = (sub = [])"
| "str_in sub (c # cs) = (starts_with (c # cs) sub \<or> str_in sub cs)"

text \<open>Python's \<^verbatim>\<open>s.split(sep)\<close> for a one-character separator.\<close>

fun split_on :: "char \<Rightarrow> string \<Rightarrow> string list" where
  "split_on sep [] = [] # []"
| "split_on sep (c # cs) =
     (if c = sep then [] # split_on sep cs
      else (case split_on sep cs of
              w # ws \<Rightarrow> (c # w) # ws
            | [] \<Rightarrow> [c] # []))"

text \<open>A loop that maps a fallible function over a list and stops at the first raise.\<close>

fun map_result :: "('a \<Rightarrow> error + 'b) \<Rightarrow> 'a list \<Rightarrow> error + 'b list" where
  "map_result f [] = Inr []"
| "map_result f (x # xs) =
     (case f x of
        Inl e \<Rightarrow> Inl e
      | Inr y \<Rightarrow> (case map_result f xs of Inl e \<Rightarrow> Inl e | Inr ys \<Rightarrow> Inr (y # ys)))"

text \<open>
  Python's \<^verbatim>\<open>a and b\<close> on values that are \<^verbatim>\<open>None\<close>, \<^verbatim>\<open>False\<close> or \<^verbatim>\<open>True\<close>:
  a falsy \<open>a\<close> is the result, otherwise \<open>b\<close> is.
\<close>

fun py_and :: "bool option \<Rightarrow> bool option \<Rightarrow> bool option" where
  "py_and (Some True) b = b"
| "py_and a b = a"


section \<open>\<^verbatim>\<open>shoulder/row_data.py\<close>: the row validator\<close>

subsection \<open>Data\<close>

text \<open>
  \<^verbatim>\<open>Correction\<close>: the four tags the validator names; the enum is declared in
  another module, so any further member is \<open>OTHER_CORRECTION\<close> with its name.
\<close>

datatype Correction =
    TO_ISB_ROTATION
  | TO_ISB_LIKE_ROTATION
  | SCAPULA_KOLZ_AC_TO_PA_ROTATION
  | SCAPULA_KOLZ_GLENOID_TO_PA_ROTATION
  | OTHER_CORRECTION string

text \<open>
  What a cell of the row's correction column can hold: a string, the float NaN of an
  empty cell, another number, or \<^verbatim>\<open>None\<close>.
\<close>

datatype cell = StrCell string | NanCell | NumCell real | NoneCell

text \<open>
  What \<^verbatim>\<open>extract_corrections\<close> returns besides \<^verbatim>\<open>None\<close>: the list of parsed tags, or
  the number of a numeric cell, which it hands back untouched.
\<close>

datatype correction_value = CorrList "Correction list" | CorrNum real

text \<open>
  The conversion callback stored in a row, named by the constructor function of
  \<^verbatim>\<open>angle_conversion_callbacks\<close> that built it and the arguments of that call:
  \<^verbatim>\<open>get_angle_conversion_callback_from_tuple(factors)\<close>,
  \<^verbatim>\<open>get_angle_conversion_callback_from_sequence(previous_sequence, new_sequence)\<close>,
  \<^verbatim>\<open>get_angle_conversion_callback_to_isb_with_sequence(previous_sequence, new_sequence,
  bsys_child, bsys_parent)\<close>.
\<close>

datatype ('b, 's) callback =
    FromTuple "int \<times> int \<times> int"
  | FromSequence 's 's
  | ToIsbWithSequence 's 's 'b 'b

text \<open>
  The collaborators of \<^verbatim>\<open>row_data.py\<close> that live in \<^verbatim>\<open>utils\<close> and \<^verbatim>\<open>checks\<close>, taken
  as parameters: \<open>'b\<close> is \<^verbatim>\<open>BiomechCoordinateSystem\<close>, \<open>'j\<close> is \<^verbatim>\<open>Joint\<close>, \<open>'s\<close> is what
  a joint's \<^verbatim>\<open>euler_sequence\<close> attribute holds.  Each is a query without effect on the row.
\<close>

record ('b, 'j, 's) helpers =
  correction_str_to_enum :: "string \<Rightarrow> error + Correction"
  bsys_is_isb :: "'b \<Rightarrow> bool"
  is_isb_oriented :: "'b \<Rightarrow> bool"
  is_origin_on_an_isb_axis :: "'b \<Rightarrow> bool"
  check_same_orientation :: "'b \<Rightarrow> 'b \<Rightarrow> bool"
  is_joint_sequence_isb :: "'j \<Rightarrow> bool"
  euler_sequence :: "'j \<Rightarrow> 's"
  isb_euler_sequence :: "'j \<Rightarrow> 's"
  is_sequence_convertible_through_factors :: "'j \<Rightarrow> bool"
  convert_rotation_matrix_from_one_coordinate_system_to_another ::
    "'b \<Rightarrow> 's \<Rightarrow> 's \<Rightarrow> bool \<times> (int \<times> int \<times> int)"

text \<open>
  \<^verbatim>\<open>RowData\<close>: the attributes \<^verbatim>\<open>__init__\<close> sets.  Of the pandas row only the cells
  of the correction columns are read by the methods below; \<open>correction_cell\<close> is
  \<^verbatim>\<open>row[get_correction_column(segment)]\<close>.  Every attribute that \<^verbatim>\<open>__init__\<close> sets to
  \<^verbatim>\<open>None\<close> is an option.
\<close>

record ('b, 'j, 's) RowData =
  correction_cell :: "Segment \<Rightarrow> cell"
  joint :: "'j option"
  parent_segment :: Segment
  parent_biomech_sys :: "'b option"
  child_segment :: Segment
  child_biomech_sys :: "'b option"
  has_rotation_data :: "bool option"
  has_translation_data :: "bool option"
  parent_segment_usable_for_rotation_data :: "bool option"
  child_segment_usable_for_rotation_data :: "bool option"
  parent_segment_usable_for_translation_data :: "bool option"
  child_segment_usable_for_translation_data :: "bool option"
  parent_definition_risk :: "bool option"
  child_definition_risk :: "bool option"
  usable_rotation_data :: "bool option"
  usable_translation_data :: "bool option"
  rotation_data_risk :: "unit option"
  translation_data_risk :: "unit option"
  rotation_correction_callback :: "('b, 's) callback option"
  translation_correction_callback :: "('b, 's) callback option"

subsection \<open>Reading the declared corrections\<close>

text \<open>
  \<^verbatim>\<open>extract_corrections\<close>.  The string \<^verbatim>\<open>"nan"\<close> is first replaced by \<^verbatim>\<open>None\<close>; a value
  that is not a string then goes through \<^verbatim>\<open>np.isnan\<close>, which raises \<^verbatim>\<open>TypeError\<close> on
  \<^verbatim>\<open>None\<close>, turns NaN into \<^verbatim>\<open>None\<close> and leaves any other number as it is.  A string
  loses its blanks, is split at commas, and each piece is parsed into a tag.
\<close>

definition extract_corrections ::
  "('b, 'j, 's) helpers \<Rightarrow> ('b, 'j, 's) RowData \<Rightarrow> Segment \<Rightarrow> error + correction_value option" where
  "extract_corrections h r seg =
     (let c0 = correction_cell r seg;
          c1 = (if c0 = StrCell ''nan'' then NoneCell else c0)
      in case c1 of
           NoneCell \<Rightarrow> Inl TypeError
         | NanCell \<Rightarrow> Inr None
         | NumCell x \<Rightarrow> Inr (Some (CorrNum x))
         | StrCell s \<Rightarrow>
             bind_result
               (map_result (correction_str_to_enum h)
                  (split_on CHR '','' (filter (\<lambda>c. c \<noteq> CHR '' '') s)))
               (\<lambda>tags. Inr (Some (CorrList tags))))"

text \<open>\<^verbatim>\<open>tag in correction\<close>: membership in a list, \<^verbatim>\<open>TypeError\<close> on a number.\<close>

definition correction_in :: "Correction \<Rightarrow> correction_value \<Rightarrow> error + bool" where
  "correction_in tag v =
     (case v of CorrList tags \<Rightarrow> Inr (tag \<in> set tags) | CorrNum x \<Rightarrow> Inl TypeError)"

text \<open>\<^verbatim>\<open>[] if correction is None else correction\<close>.\<close>

definition or_empty :: "correction_value option \<Rightarrow> correction_value" where
  "or_empty correction = (case correction of None \<Rightarrow> CorrList [] | Some v \<Rightarrow> v)"

definition check_segment_has_no_correction :: "correction_value option \<Rightarrow> bool" where
  "check_segment_has_no_correction correction = (correction = None)"

definition check_segment_has_kolz_correction :: "correction_value option \<Rightarrow> error + bool" where
  "check_segment_has_kolz_correction correction =
     bind_result (correction_in SCAPULA_KOLZ_AC_TO_PA_ROTATION (or_empty correction))
       (\<lambda>ac. if ac then Inr True
              else correction_in SCAPULA_KOLZ_GLENOID_TO_PA_ROTATION (or_empty correction))"

definition check_segment_has_to_isb_correction :: "correction_value option \<Rightarrow> error + bool" where
  "check_segment_has_to_isb_correction correction =
     correction_in TO_ISB_ROTATION (or_empty correction)"

definition check_segment_has_to_isb_like_correction :: "correction_value option \<Rightarrow> error + bool" where
  "check_segment_has_to_isb_like_correction correction =
     correction_in TO_ISB_LIKE_ROTATION (or_empty correction)"

subsection \<open>\<^verbatim>\<open>check_segments_correction_validity\<close>\<close>

text \<open>
  The method is a sequence of \<^verbatim>\<open>if\<close> blocks over the two locals \<^verbatim>\<open>parent_output\<close> and
  \<^verbatim>\<open>child_output\<close> and the attributes of the row.  Each block below is one block of the
  source, in the source's order, on the triple (\<^verbatim>\<open>parent_output\<close>, \<^verbatim>\<open>child_output\<close>,
  row); \<open>p\<close> and \<open>c\<close> are the parent and child coordinate systems, \<open>pc\<close> and \<open>cc\<close> the
  extracted corrections.  Printing of warnings has no effect on the result and is left out.
\<close>

type_synonym ('b, 'j, 's) locals = "bool \<times> bool \<times> ('b, 'j, 's) RowData"

text \<open>Both segments are ISB: no correction is expected on either side.\<close>

definition both_isb_block ::
  "('b, 'j, 's) helpers \<Rightarrow> 'b \<Rightarrow> 'b \<Rightarrow> correction_value option \<Rightarrow> correction_value option \<Rightarrow>
   ('b, 'j, 's) locals \<Rightarrow> ('b, 'j, 's) locals" where
  "both_isb_block h p c pc cc st =
     (case st of (parent_output, child_output, r) \<Rightarrow>
        if bsys_is_isb h p \<and> bsys_is_isb h c then
          (let po = check_segment_has_no_correction pc;
               co = check_segment_has_no_correction cc
           in (po, co,
               r\<lparr>parent_segment_usable_for_rotation_data := Some po,
                 child_segment_usable_for_rotation_data := Some co,
                 parent_segment_usable_for_translation_data := Some po,
                 child_segment_usable_for_translation_data := Some co\<rparr>))
        else st)"

text \<open>ISB-oriented with the origin on an ISB axis: no correction is expected.\<close>

definition parent_oriented_on_axis_block ::
  "('b, 'j, 's) helpers \<Rightarrow> 'b \<Rightarrow> correction_value option \<Rightarrow>
   ('b, 'j, 's) locals \<Rightarrow> ('b, 'j, 's) locals" where
  "parent_oriented_on_axis_block h p pc st =
     (case st of (parent_output, child_output, r) \<Rightarrow>
        if is_isb_oriented h p \<and> is_origin_on_an_isb_axis h p then
          (let po = check_segment_has_no_correction pc
           in (po, child_output,
               r\<lparr>parent_segment_usable_for_rotation_data := Some po,
                 parent_segment_usable_for_translation_data := Some False\<rparr>))
        else st)"

definition child_oriented_on_axis_block ::
  "('b, 'j, 's) helpers \<Rightarrow> 'b \<Rightarrow> correction_value option \<Rightarrow>
   ('b, 'j, 's) locals \<Rightarrow> ('b, 'j, 's) locals" where
  "child_oriented_on_axis_block h c cc st =
     (case st of (parent_output, child_output, r) \<Rightarrow>
        if is_isb_oriented h c \<and> is_origin_on_an_isb_axis h c then
          (let co = check_segment_has_no_correction cc
           in (parent_output, co,
               r\<lparr>child_segment_usable_for_rotation_data := Some co,
                 child_segment_usable_for_translation_data := Some False\<rparr>))
        else st)"

text \<open>
  ISB-oriented with the origin off the ISB axes: a scapula needs a Kolz correction, any
  other segment gets its definition-risk flag.
\<close>

definition parent_oriented_off_axis_block ::
  "('b, 'j, 's) helpers \<Rightarrow> 'b \<Rightarrow> correction_value option \<Rightarrow>
   ('b, 'j, 's) locals \<Rightarrow> error + ('b, 'j, 's) locals" where
  "parent_oriented_off_axis_block h p pc st =
     (case st of (parent_output, child_output, r) \<Rightarrow>
        if is_isb_oriented h p \<and> \<not> is_origin_on_an_isb_axis h p then
          bind_result
            (if parent_segment r = SCAPULA then
               bind_result (check_segment_has_kolz_correction pc)
                 (\<lambda>k. Inr (k, child_output, r))
             else Inr (parent_output, child_output, r\<lparr>parent_definition_risk := Some True\<rparr>))
            (\<lambda>(po, co, r1).
               Inr (po, co,
                    r1\<lparr>parent_segment_usable_for_rotation_data := Some po,
                       parent_segment_usable_for_translation_data := Some False\<rparr>))
        else Inr st)"

text \<open>
  The child's block of the same shape.  As in the source, the result of the Kolz check
  is assigned to \<^verbatim>\<open>parent_output\<close>, and \<^verbatim>\<open>child_output\<close> is what the row receives.
\<close>

definition child_oriented_off_axis_block ::
  "('b, 'j, 's) helpers \<Rightarrow> 'b \<Rightarrow> correction_value option \<Rightarrow>
   ('b, 'j, 's) locals \<Rightarrow> error + ('b, 'j, 's) locals" where
  "child_oriented_off_axis_block h c cc st =
     (case st of (parent_output, child_output, r) \<Rightarrow>
        if is_isb_oriented h c \<and> \<not> is_origin_on_an_isb_axis h c then
          bind_result
            (if child_segment r = SCAPULA then
               bind_result (check_segment_has_kolz_correction cc)
                 (\<lambda>k. Inr (k, child_output, r))
             else Inr (parent_output, child_output, r\<lparr>child_definition_risk := Some True\<rparr>))
            (\<lambda>(po, co, r1).
               Inr (po, co,
                    r1\<lparr>child_segment_usable_for_rotation_data := Some co,
                       child_segment_usable_for_translation_data := Some False\<rparr>))
        else Inr st)"

text \<open>
  Not ISB-oriented: \<open>required\<close> is the check for the rotation tag the cell must hold
  (\<^verbatim>\<open>TO_ISB_ROTATION\<close> with the origin on an axis, \<^verbatim>\<open>TO_ISB_LIKE_ROTATION\<close> off the
  axes); for a scapula the Kolz check then replaces its result.
\<close>

definition not_oriented_output ::
  "(correction_value option \<Rightarrow> error + bool) \<Rightarrow> Segment \<Rightarrow> correction_value option \<Rightarrow> error + bool" where
  "not_oriented_output required seg correction =
     bind_result (required correction)
       (\<lambda>out. if seg = SCAPULA then check_segment_has_kolz_correction correction else Inr out)"

definition parent_not_oriented_on_axis_block ::
  "('b, 'j, 's) helpers \<Rightarrow> 'b \<Rightarrow> correction_value option \<Rightarrow>
   ('b, 'j, 's) locals \<Rightarrow> error + ('b, 'j, 's) locals" where
  "parent_not_oriented_on_axis_block h p pc st =
     (case st of (parent_output, child_output, r) \<Rightarrow>
        if \<not> is_isb_oriented h p \<and> is_origin_on_an_isb_axis h p then
          bind_result
            (not_oriented_output check_segment_has_to_isb_correction (parent_segment r) pc)
            (\<lambda>po. Inr (po, child_output,
                        r\<lparr>parent_segment_usable_for_rotation_data := Some po,
                          parent_segment_usable_for_translation_data := Some False\<rparr>))
        else Inr st)"

definition child_not_oriented_on_axis_block ::
  "('b, 'j, 's) helpers \<Rightarrow> 'b \<Rightarrow> correction_value option \<Rightarrow>
   ('b, 'j, 's) locals \<Rightarrow> error + ('b, 'j, 's) locals" where
  "child_not_oriented_on_axis_block h c cc st =
     (case st of (parent_output, child_output, r) \<Rightarrow>
        if \<not> is_isb_oriented h c \<and> is_origin_on_an_isb_axis h c then
          bind_result
            (not_oriented_output check_segment_has_to_isb_correction (child_segment r) cc)
            (\<lambda>co. Inr (parent_output, co,
                        r\<lparr>child_segment_usable_for_rotation_data := Some co,
                          child_segment_usable_for_translation_data := Some False\<rparr>))
        else Inr st)"

definition parent_not_oriented_off_axis_block ::
  "('b, 'j, 's) helpers \<Rightarrow> 'b \<Rightarrow> correction_value option \<Rightarrow>
   ('b, 'j, 's) locals \<Rightarrow> error + ('b, 'j, 's) locals" where
  "parent_not_oriented_off_axis_block h p pc st =
     (case st of (parent_output, child_output, r) \<Rightarrow>
        if \<not> is_isb_oriented h p \<and> \<not> is_origin_on_an_isb_axis h p then
          bind_result
            (not_oriented_output check_segment_has_to_isb_like_correction (parent_segment r) pc)
            (\<lambda>po. Inr (po, child_output,
                        r\<lparr>parent_segment_usable_for_rotation_data := Some po,
                          parent_segment_usable_for_translation_data := Some False,
                          parent_definition_risk := Some True\<rparr>))
        else Inr st)"

definition child_not_oriented_off_axis_block ::
  "('b, 'j, 's) helpers \<Rightarrow> 'b \<Rightarrow> correction_value option \<Rightarrow>
   ('b, 'j, 's) locals \<Rightarrow> error + ('b, 'j, 's) locals" where
  "child_not_oriented_off_axis_block h c cc st =
     (case st of (parent_output, child_output, r) \<Rightarrow>
        if \<not> is_isb_oriented h c \<and> \<not> is_origin_on_an_isb_axis h c then
          bind_result
            (not_oriented_output check_segment_has_to_isb_like_correction (child_segment r) cc)
            (\<lambda>co. Inr (parent_output, co,
                        r\<lparr>child_segment_usable_for_rotation_data := Some co,
                          child_segment_usable_for_translation_data := Some False,
                          child_definition_risk := Some True\<rparr>))
        else Inr st)"

text \<open>
  The last statements: the two row-level flags are Python's \<^verbatim>\<open>and\<close> of the per-side
  flags, child first, and the pair of them is the return value.
\<close>

definition combine_sides ::
  "('b, 'j, 's) locals \<Rightarrow> (bool option \<times> bool option) \<times> ('b, 'j, 's) RowData" where
  "combine_sides st =
     (case st of (parent_output, child_output, r) \<Rightarrow>
        (let r1 = r\<lparr>usable_rotation_data :=
                      py_and (child_segment_usable_for_rotation_data r)
                             (parent_segment_usable_for_rotation_data r)\<rparr>;
             r2 = r1\<lparr>usable_translation_data :=
                      py_and (child_segment_usable_for_translation_data r1)
                             (parent_segment_usable_for_translation_data r1)\<rparr>
         in ((usable_rotation_data r2, usable_translation_data r2), r2)))"

text \<open>
  The blocks in the source's order, from both locals \<^verbatim>\<open>True\<close>.  Only the Kolz and
  rotation-tag checks can raise (\<^verbatim>\<open>TypeError\<close> on a numeric correction), which ends the
  method.
\<close>

definition apply_correction_rules ::
  "('b, 'j, 's) helpers \<Rightarrow> 'b \<Rightarrow> 'b \<Rightarrow> correction_value option \<Rightarrow> correction_value option \<Rightarrow>
   ('b, 'j, 's) RowData \<Rightarrow> error + ((bool option \<times> bool option) \<times> ('b, 'j, 's) RowData)" where
  "apply_correction_rules h p c pc cc r =
     bind_result
       (parent_oriented_off_axis_block h p pc
         (child_oriented_on_axis_block h c cc
           (parent_oriented_on_axis_block h p pc
             (both_isb_block h p c pc cc (True, True, r))))) (\<lambda>s4.
     bind_result (child_oriented_off_axis_block h c cc s4) (\<lambda>s5.
     bind_result (parent_not_oriented_on_axis_block h p pc s5) (\<lambda>s6.
     bind_result (child_not_oriented_on_axis_block h c cc s6) (\<lambda>s7.
     bind_result (parent_not_oriented_off_axis_block h p pc s7) (\<lambda>s8.
     bind_result (child_not_oriented_off_axis_block h c cc s8) (\<lambda>s9.
       Inr (combine_sides s9)))))))"

text \<open>
  The whole method: both correction cells are read first.  A missing coordinate system
  (\<^verbatim>\<open>set_segments\<close> not yet called) is an \<^verbatim>\<open>AttributeError\<close> at the first method call
  on it.  The result is the returned pair and the row as the method leaves it; the row
  left behind by a raise is not modelled.
\<close>

definition check_segments_correction_validity ::
  "('b, 'j, 's) helpers \<Rightarrow> ('b, 'j, 's) RowData \<Rightarrow>
   error + ((bool option \<times> bool option) \<times> ('b, 'j, 's) RowData)" where
  "check_segments_correction_validity h r =
     bind_result (extract_corrections h r (parent_segment r)) (\<lambda>pc.
     bind_result (extract_corrections h r (child_segment r)) (\<lambda>cc.
       case parent_biomech_sys r of
         None \<Rightarrow> Inl AttributeError
       | Some p \<Rightarrow>
          (case child_biomech_sys r of
             None \<Rightarrow> Inl AttributeError
           | Some c \<Rightarrow> apply_correction_rules h p c pc cc r)))"

subsection \<open>\<^verbatim>\<open>set_rotation_correction_callback\<close>\<close>

text \<open>
  The result is the exception raised, if any, and the row as the call leaves it, so that
  what a raising call has stored is visible.  The final \<^verbatim>\<open>else\<close> of the source is kept
  although the two tests before it exclude it.
\<close>

definition set_rotation_correction_callback ::
  "('b, 'j, 's) helpers \<Rightarrow> ('b, 'j, 's) RowData \<Rightarrow> error option \<times> ('b, 'j, 's) RowData" where
  "set_rotation_correction_callback h r =
     (case parent_biomech_sys r of
        None \<Rightarrow> (Some AttributeError, r)
      | Some p \<Rightarrow>
         (case child_biomech_sys r of
            None \<Rightarrow> (Some AttributeError, r)
          | Some c \<Rightarrow>
             (let parent_isb = is_isb_oriented h p;
                  child_isb = is_isb_oriented h c
              in if parent_isb \<and> child_isb then
                   (case joint r of
                      None \<Rightarrow> (Some AttributeError, r)
                    | Some j \<Rightarrow>
                        if is_joint_sequence_isb h j then
                          (None, r\<lparr>usable_rotation_data := Some True,
                                   rotation_correction_callback := Some (FromTuple (1, 1, 1))\<rparr>)
                        else
                          (None, r\<lparr>usable_rotation_data := Some True,
                                   rotation_correction_callback :=
                                     Some (FromSequence (euler_sequence h j) (isb_euler_sequence h j))\<rparr>))
                 else if \<not> parent_isb \<or> \<not> child_isb then
                   (if \<not> check_same_orientation h p c then
                      (Some NotImplementedError,
                       r\<lparr>usable_rotation_data := Some False,
                         rotation_correction_callback := None\<rparr>)
                    else
                      (case joint r of
                         None \<Rightarrow> (Some AttributeError, r)
                       | Some j \<Rightarrow>
                          (case convert_rotation_matrix_from_one_coordinate_system_to_another h p
                                  (euler_sequence h j) (isb_euler_sequence h j) of
                             (convertible, sign_factors) \<Rightarrow>
                               if is_sequence_convertible_through_factors h j \<and> convertible then
                                 (None, r\<lparr>usable_rotation_data := Some True,
                                          rotation_correction_callback := Some (FromTuple sign_factors)\<rparr>)
                               else
                                 (None, r\<lparr>usable_rotation_data := Some True,
                                          rotation_correction_callback :=
                                            Some (ToIsbWithSequence (euler_sequence h j)
                                                    (isb_euler_sequence h j) c p)\<rparr>))))
                 else (Some NotImplementedError, r))))"

text \<open>
  Modelled from the spec: the module \<^verbatim>\<open>angle_conversion_callbacks\<close>, and with it what the
  callback built by \<^verbatim>\<open>get_angle_conversion_callback_from_tuple\<close> computes, is missing
  from the sources.  The spec calls it the conversion "with per-axis sign factors" and
  defines a sign-factor conversion as "multiplying each angle by \<plusminus>1": each of the three
  angles is multiplied by its factor.  Angles are real numbers here.
\<close>

definition apply_sign_factors :: "int \<times> int \<times> int \<Rightarrow> real \<times> real \<times> real \<Rightarrow> real \<times> real \<times> real" where
  "apply_sign_factors factors angles =
     (case factors of (f1, f2, f3) \<Rightarrow>
        case angles of (a1, a2, a3) \<Rightarrow> (of_int f1 * a1, of_int f2 * a2, of_int f3 * a3))"

section \<open>\<^verbatim>\<open>spartacus/src/frame_reader.py\<close>: vectors and frames\<close>

subsection \<open>Data\<close>

text \<open>
  \<^verbatim>\<open>AnatomicalLandmark\<close> and \<^verbatim>\<open>CartesianAxis\<close> are enums of \<^verbatim>\<open>enums_biomech\<close>, a module
  modelled only through its uses.  A landmark is the enum member of a given name; the six
  signed axes are the members \<^verbatim>\<open>frame_reader.py\<close> and the spec name.
\<close>

datatype AnatomicalLandmark = Landmark string

datatype CartesianAxis = plusX | plusY | plusZ | minusX | minusY | minusZ

text \<open>
  A numpy array of three floats.  Components are real numbers (rounding is not
  modelled); \<open>NaN3\<close> is the array of three NaN that numpy's division of a zero vector by
  its zero norm produces, with a warning and no exception.
\<close>

datatype ndarray = Vec3 real real real | NaN3

text \<open>
  The collaborators of \<^verbatim>\<open>frame_reader.py\<close>, taken as parameters:
  \<^verbatim>\<open>AnatomicalLandmark.from_string\<close>, \<^verbatim>\<open>get_constant\<close> (the reference pose table of
  \<^verbatim>\<open>biomech_constant\<close>), \<^verbatim>\<open>CartesianAxis.principal_axis\<close>, and per segment
  \<^verbatim>\<open>AnatomicalLandmark.<Segment>.isb()\<close> and \<^verbatim>\<open>AnatomicalLandmark.<Segment>.origin_isb()\<close>.
  Only the string parser is taken to raise.
\<close>

record frame_helpers =
  landmark_from_string :: "string \<Rightarrow> error + AnatomicalLandmark"
  get_constant :: "AnatomicalLandmark \<Rightarrow> real \<times> real \<times> real"
  principal_axis :: "ndarray \<Rightarrow> CartesianAxis"
  isb_landmarks :: "Segment \<Rightarrow> AnatomicalLandmark list"
  origin_isb :: "Segment \<Rightarrow> AnatomicalLandmark"

text \<open>
  \<^verbatim>\<open>VectorBase\<close> with its two subclasses.  \<open>NoVector\<close> is Python's \<^verbatim>\<open>None\<close> in a place
  where a vector is expected, which \<^verbatim>\<open>from_twice_crossed\<close> puts there.
\<close>

datatype VectorBase =
    NoVector
  | StartEndVector AnatomicalLandmark AnatomicalLandmark
  | CrossedVector VectorBase VectorBase

record Frame =
  origin :: AnatomicalLandmark
  x_axis :: VectorBase
  y_axis :: VectorBase
  z_axis :: VectorBase
  segment :: Segment

subsection \<open>Vectors\<close>

definition np_sub :: "real \<times> real \<times> real \<Rightarrow> real \<times> real \<times> real \<Rightarrow> ndarray" where
  "np_sub a b =
     (case a of (a1, a2, a3) \<Rightarrow> case b of (b1, b2, b3) \<Rightarrow> Vec3 (a1 - b1) (a2 - b2) (a3 - b3))"

fun np_cross :: "ndarray \<Rightarrow> ndarray \<Rightarrow> ndarray" where
  "np_cross (Vec3 a1 a2 a3) (Vec3 b1 b2 b3) =
     Vec3 (a2 * b3 - a3 * b2) (a3 * b1 - a1 * b3) (a1 * b2 - a2 * b1)"
| "np_cross a b = NaN3"

text \<open>
  \<^verbatim>\<open>vector / np.linalg.norm(vector)\<close>: the division is done whatever the norm is; a zero
  norm gives NaN in every component, and NaN stays NaN.
\<close>

fun over_norm :: "ndarray \<Rightarrow> ndarray" where
  "over_norm (Vec3 x y z) =
     (let n = sqrt (x * x + y * y + z * z)
      in if n = 0 then NaN3 else Vec3 (x / n) (y / n) (z / n))"
| "over_norm NaN3 = NaN3"

text \<open>\<^verbatim>\<open>compute_default_vector\<close>; calling it on \<^verbatim>\<open>None\<close> is an \<^verbatim>\<open>AttributeError\<close>.\<close>

fun compute_default_vector :: "frame_helpers \<Rightarrow> VectorBase \<Rightarrow> error + ndarray" where
  "compute_default_vector h NoVector = Inl AttributeError"
| "compute_default_vector h (StartEndVector start end) =
     Inr (over_norm (np_sub (get_constant h end) (get_constant h start)))"
| "compute_default_vector h (CrossedVector vector1 vector2) =
     bind_result (compute_default_vector h vector1) (\<lambda>a.
     bind_result (compute_default_vector h vector2) (\<lambda>b.
       Inr (over_norm (np_cross a b))))"

text \<open>The \<^verbatim>\<open>landmarks\<close> property of a vector.\<close>

fun vector_landmarks :: "VectorBase \<Rightarrow> error + AnatomicalLandmark list" where
  "vector_landmarks NoVector = Inl AttributeError"
| "vector_landmarks (StartEndVector start end) = Inr [start, end]"
| "vector_landmarks (CrossedVector vector1 vector2) =
     bind_result (vector_landmarks vector1) (\<lambda>a.
     bind_result (vector_landmarks vector2) (\<lambda>b. Inr (a @ b)))"

definition principal_direction :: "frame_helpers \<Rightarrow> VectorBase \<Rightarrow> error + CartesianAxis" where
  "principal_direction h v =
     bind_result (compute_default_vector h v) (\<lambda>a. Inr (principal_axis h a))"

subsection \<open>Parsing axis tokens\<close>

definition ends_with :: "string \<Rightarrow> string \<Rightarrow> bool" where
  "ends_with s suffix = starts_with (rev s) (rev suffix)"

text \<open>
  \<^verbatim>\<open>parse_start_end_vector\<close>: the shape test, then \<^verbatim>\<open>input[4:-1].split(">")\<close> and its first
  two pieces.
\<close>

definition parse_start_end_vector :: "string \<Rightarrow> error + (string \<times> string)" where
  "parse_start_end_vector input =
     (if \<not> starts_with input ''vec('' \<or> \<not> ends_with input '')'' \<or> \<not> str_in ''>'' input
      then Inl ValueError
      else (case split_on CHR ''>'' (butlast (drop 4 input)) of
              a # b # rest \<Rightarrow> Inr (a, b)
            | _ \<Rightarrow> Inl IndexError))"

text \<open>\<^verbatim>\<open>StartEndVector.from_strings\<close>.\<close>

definition from_strings :: "frame_helpers \<Rightarrow> string \<Rightarrow> string \<Rightarrow> error + VectorBase" where
  "from_strings h start end =
     bind_result (landmark_from_string h start) (\<lambda>s.
     bind_result (landmark_from_string h end) (\<lambda>e. Inr (StartEndVector s e)))"

definition parse_vector :: "frame_helpers \<Rightarrow> string \<Rightarrow> error + VectorBase" where
  "parse_vector h input =
     bind_result (parse_start_end_vector input) (\<lambda>(start, end). from_strings h start end)"

text \<open>
  \<^verbatim>\<open>parse_crossed_vector\<close>: unpacking \<^verbatim>\<open>input.split("^")\<close> into two names is a
  \<^verbatim>\<open>ValueError\<close> unless there are exactly two pieces.
\<close>

definition parse_crossed_vector :: "frame_helpers \<Rightarrow> string \<Rightarrow> string \<Rightarrow> error + VectorBase" where
  "parse_crossed_vector h input side =
     (case split_on CHR ''^'' input of
        [first_vector, second_vector] \<Rightarrow>
          if side = ''all'' then
            bind_result (parse_vector h first_vector) (\<lambda>vector1.
            bind_result (parse_vector h second_vector) (\<lambda>vector2.
              Inr (CrossedVector vector1 vector2)))
          else if side = ''first'' then parse_vector h first_vector
          else if side = ''second'' then parse_vector h second_vector
          else Inl ValueError
      | _ \<Rightarrow> Inl ValueError)"

definition parse_axis :: "frame_helpers \<Rightarrow> string \<Rightarrow> string \<Rightarrow> error + VectorBase" where
  "parse_axis h input_str side =
     (if str_in ''^'' input_str then parse_crossed_vector h input_str side
      else if side = ''first'' \<or> side = ''second'' then Inl ValueError
      else parse_vector h input_str)"

subsection \<open>Building frames\<close>

definition from_xy :: "VectorBase \<Rightarrow> VectorBase \<Rightarrow> AnatomicalLandmark \<Rightarrow> Segment \<Rightarrow> Frame" where
  "from_xy x y orig seg =
     \<lparr>origin = orig, x_axis = x, y_axis = y, z_axis = CrossedVector x y, segment = seg\<rparr>"

definition from_xz :: "VectorBase \<Rightarrow> VectorBase \<Rightarrow> AnatomicalLandmark \<Rightarrow> Segment \<Rightarrow> Frame" where
  "from_xz x z orig seg =
     \<lparr>origin = orig, x_axis = x, y_axis = CrossedVector z x, z_axis = z, segment = seg\<rparr>"

definition from_yz :: "VectorBase \<Rightarrow> VectorBase \<Rightarrow> AnatomicalLandmark \<Rightarrow> Segment \<Rightarrow> Frame" where
  "from_yz y z orig seg =
     \<lparr>origin = orig, x_axis = CrossedVector y z, y_axis = y, z_axis = z, segment = seg\<rparr>"

definition from_z_crossed_twice ::
  "VectorBase \<Rightarrow> VectorBase \<Rightarrow> AnatomicalLandmark \<Rightarrow> Segment \<Rightarrow> Frame" where
  "from_z_crossed_twice y z orig seg = from_xz (CrossedVector y z) z orig seg"

definition from_y_crossed_twice ::
  "VectorBase \<Rightarrow> VectorBase \<Rightarrow> AnatomicalLandmark \<Rightarrow> Segment \<Rightarrow> Frame" where
  "from_y_crossed_twice x y orig seg = from_yz y (CrossedVector x y) orig seg"

definition from_x_crossed_twice ::
  "VectorBase \<Rightarrow> VectorBase \<Rightarrow> AnatomicalLandmark \<Rightarrow> Segment \<Rightarrow> Frame" where
  "from_x_crossed_twice x z orig seg = from_xy x (CrossedVector z x) orig seg"

text \<open>
  \<^verbatim>\<open>from_once_crossed\<close>: in each branch the origin is parsed first, then the two explicit
  axes; no branch matching is a \<^verbatim>\<open>ValueError\<close>.
\<close>

definition from_once_crossed ::
  "frame_helpers \<Rightarrow> string \<Rightarrow> string \<Rightarrow> string \<Rightarrow> string \<Rightarrow> Segment \<Rightarrow> error + Frame" where
  "from_once_crossed h x y z orig seg =
     (if x = ''y^z'' then
        bind_result (landmark_from_string h orig) (\<lambda>l.
        bind_result (parse_axis h y ''all'') (\<lambda>yv.
        bind_result (parse_axis h z ''all'') (\<lambda>zv. Inr (from_yz yv zv l seg))))
      else if y = ''z^x'' then
        bind_result (landmark_from_string h orig) (\<lambda>l.
        bind_result (parse_axis h x ''all'') (\<lambda>xv.
        bind_result (parse_axis h z ''all'') (\<lambda>zv. Inr (from_xz xv zv l seg))))
      else if z = ''x^y'' then
        bind_result (landmark_from_string h orig) (\<lambda>l.
        bind_result (parse_axis h x ''all'') (\<lambda>xv.
        bind_result (parse_axis h y ''all'') (\<lambda>yv. Inr (from_xy xv yv l seg))))
      else Inl ValueError)"

definition is_x_axis_crossed_twice :: "string \<Rightarrow> string \<Rightarrow> string \<Rightarrow> bool" where
  "is_x_axis_crossed_twice x y z = (str_in ''x^'' z \<and> str_in ''^x'' y)"

definition is_y_axis_crossed_twice :: "string \<Rightarrow> string \<Rightarrow> string \<Rightarrow> bool" where
  "is_y_axis_crossed_twice x y z = (str_in ''y^'' x \<and> str_in ''^y'' z)"

definition is_z_axis_crossed_twice :: "string \<Rightarrow> string \<Rightarrow> string \<Rightarrow> bool" where
  "is_z_axis_crossed_twice x y z = (str_in ''z^'' y \<and> str_in ''^z'' x)"

definition is_one_axis_crossed_twice :: "string \<Rightarrow> string \<Rightarrow> string \<Rightarrow> bool" where
  "is_one_axis_crossed_twice x y z =
     (is_x_axis_crossed_twice x y z \<or> is_y_axis_crossed_twice x y z \<or> is_z_axis_crossed_twice x y z)"

text \<open>
  \<^verbatim>\<open>from_twice_crossed\<close>: the three tests in the source's order, the keyword arguments of
  each call evaluated left to right.  The y branch parses the origin only and passes
  \<^verbatim>\<open>None, None\<close> as axes.  When no test holds the method falls off its end and returns
  \<^verbatim>\<open>None\<close>.
\<close>

definition from_twice_crossed ::
  "frame_helpers \<Rightarrow> string \<Rightarrow> string \<Rightarrow> string \<Rightarrow> string \<Rightarrow> Segment \<Rightarrow> error + Frame option" where
  "from_twice_crossed h x y z orig seg =
     (if is_x_axis_crossed_twice x y z then
        bind_result (parse_axis h x ''all'') (\<lambda>xv.
        bind_result (parse_axis h y ''first'') (\<lambda>zv.
        bind_result (landmark_from_string h orig) (\<lambda>l.
          Inr (Some (from_x_crossed_twice xv zv l seg)))))
      else if is_y_axis_crossed_twice x y z then
        bind_result (landmark_from_string h orig) (\<lambda>l.
          Inr (Some (from_y_crossed_twice NoVector NoVector l seg)))
      else if is_z_axis_crossed_twice x y z then
        bind_result (parse_axis h x ''first'') (\<lambda>yv.
        bind_result (parse_axis h z ''all'') (\<lambda>zv.
        bind_result (landmark_from_string h orig) (\<lambda>l.
          Inr (Some (from_z_crossed_twice yv zv l seg)))))
      else Inr None)"

definition from_xyz_string ::
  "frame_helpers \<Rightarrow> string \<Rightarrow> string \<Rightarrow> string \<Rightarrow> string \<Rightarrow> Segment \<Rightarrow> error + Frame option" where
  "from_xyz_string h x y z orig seg =
     (if is_one_axis_crossed_twice x y z then from_twice_crossed h x y z orig seg
      else bind_result (from_once_crossed h x y z orig seg) (\<lambda>f. Inr (Some f)))"

subsection \<open>Classifying a frame\<close>

text \<open>
  The \<^verbatim>\<open>landmarks\<close> property of a frame: the landmarks of the three axes, each kept at
  its first occurrence (\<^verbatim>\<open>dict.fromkeys\<close>).
\<close>

definition frame_landmarks :: "Frame \<Rightarrow> error + AnatomicalLandmark list" where
  "frame_landmarks f =
     bind_result (vector_landmarks (x_axis f)) (\<lambda>a.
     bind_result (vector_landmarks (y_axis f)) (\<lambda>b.
     bind_result (vector_landmarks (z_axis f)) (\<lambda>c.
       Inr (rev (remdups (rev (a @ b @ c)))))))"

definition has_isb_landmarks :: "frame_helpers \<Rightarrow> Frame \<Rightarrow> error + bool" where
  "has_isb_landmarks h f =
     bind_result (frame_landmarks f) (\<lambda>ls. Inr (set ls = set (isb_landmarks h (segment f))))"

definition is_origin_isb :: "frame_helpers \<Rightarrow> Frame \<Rightarrow> error + bool" where
  "is_origin_isb h f = Inr (origin f = origin_isb h (segment f))"

definition is_x_axis_postero_anterior :: "frame_helpers \<Rightarrow> Frame \<Rightarrow> error + bool" where
  "is_x_axis_postero_anterior h f =
     bind_result (principal_direction h (x_axis f)) (\<lambda>d. Inr (d = plusX))"

definition is_y_axis_supero_inferior :: "frame_helpers \<Rightarrow> Frame \<Rightarrow> error + bool" where
  "is_y_axis_supero_inferior h f =
     bind_result (principal_direction h (y_axis f)) (\<lambda>d. Inr (d = plusY))"

definition is_z_axis_medio_lateral :: "frame_helpers \<Rightarrow> Frame \<Rightarrow> error + bool" where
  "is_z_axis_medio_lateral h f =
     bind_result (principal_direction h (z_axis f)) (\<lambda>d. Inr (d = plusZ))"

text \<open>
  Python's \<^verbatim>\<open>a and b\<close> where evaluating either side may raise: \<open>b\<close> is evaluated only
  when \<open>a\<close> is true.
\<close>

definition and_then :: "error + bool \<Rightarrow> error + bool \<Rightarrow> error + bool" where
  "and_then a b = bind_result a (\<lambda>x. if x then b else Inr False)"

definition is_isb :: "frame_helpers \<Rightarrow> Frame \<Rightarrow> error + bool" where
  "is_isb h f =
     and_then (has_isb_landmarks h f)
       (and_then (is_x_axis_postero_anterior h f)
         (and_then (is_y_axis_supero_inferior h f)
           (and_then (is_z_axis_medio_lateral h f)
             (is_origin_isb h f))))"

section \<open>Example collaborators, rows and frames\<close>

text \<open>
  Concrete stand-ins for the collaborators, on which the theorems below are instantiated.
  An example coordinate system records what its three classification methods answer and
  an orientation pattern that \<open>check_same_orientation\<close> compares; an example joint holds
  its declared and its canonical Euler sequence.
\<close>

record example_bsys =
  fully_isb :: bool
  oriented :: bool
  on_axis :: bool
  orientation_pattern :: nat

record example_joint =
  declared_sequence :: string
  canonical_sequence :: string

definition example_correction_str_to_enum :: "string \<Rightarrow> error + Correction" where
  "example_correction_str_to_enum s =
     (if s = ''to_isb'' then Inr TO_ISB_ROTATION
      else if s = ''to_isb_like'' then Inr TO_ISB_LIKE_ROTATION
      else if s = ''kolz_AC_to_PA'' then Inr SCAPULA_KOLZ_AC_TO_PA_ROTATION
      else if s = ''kolz_GC_to_PA'' then Inr SCAPULA_KOLZ_GLENOID_TO_PA_ROTATION
      else Inl ValueError)"

definition example_helpers :: "(example_bsys, example_joint, string) helpers" where
  "example_helpers =
     \<lparr>correction_str_to_enum = example_correction_str_to_enum,
      bsys_is_isb = fully_isb,
      is_isb_oriented = oriented,
      is_origin_on_an_isb_axis = on_axis,
      check_same_orientation = (\<lambda>p c. orientation_pattern p = orientation_pattern c),
      is_joint_sequence_isb = (\<lambda>j. declared_sequence j = canonical_sequence j),
      euler_sequence = declared_sequence,
      isb_euler_sequence = canonical_sequence,
      is_sequence_convertible_through_factors = (\<lambda>j. declared_sequence j = canonical_sequence j),
      convert_rotation_matrix_from_one_coordinate_system_to_another =
        (\<lambda>b s t. (s = t, (1, 1, 1)))\<rparr>"

definition isb_system :: example_bsys where
  "isb_system = \<lparr>fully_isb = True, oriented = True, on_axis = True, orientation_pattern = 0\<rparr>"

definition off_axis_system :: example_bsys where
  "off_axis_system = \<lparr>fully_isb = False, oriented = True, on_axis = False, orientation_pattern = 0\<rparr>"

definition flipped_system :: example_bsys where
  "flipped_system = \<lparr>fully_isb = False, oriented = False, on_axis = True, orientation_pattern = 1\<rparr>"

definition yxz_joint :: example_joint where
  "yxz_joint = \<lparr>declared_sequence = ''yxz'', canonical_sequence = ''yxz''\<rparr>"

text \<open>A thorax-clavicle row as \<^verbatim>\<open>__init__\<close> leaves it, with empty correction cells.\<close>

definition blank_row :: "(example_bsys, example_joint, string) RowData" where
  "blank_row =
     \<lparr>correction_cell = (\<lambda>seg. NanCell),
      joint = None,
      parent_segment = THORAX,
      parent_biomech_sys = None,
      child_segment = CLAVICLE,
      child_biomech_sys = None,
      has_rotation_data = None,
      has_translation_data = None,
      parent_segment_usable_for_rotation_data = None,
      child_segment_usable_for_rotation_data = None,
      parent_segment_usable_for_translation_data = None,
      child_segment_usable_for_translation_data = None,
      parent_definition_risk = None,
      child_definition_risk = None,
      usable_rotation_data = None,
      usable_translation_data = None,
      rotation_data_risk = None,
      translation_data_risk = None,
      rotation_correction_callback = None,
      translation_correction_callback = None\<rparr>"

text \<open>Both segments fully ISB, the declared sequence canonical, no correction declared.\<close>

definition isb_row :: "(example_bsys, example_joint, string) RowData" where
  "isb_row =
     blank_row\<lparr>joint := Some yxz_joint,
               parent_biomech_sys := Some isb_system,
               child_biomech_sys := Some isb_system\<rparr>"

text \<open>The same row with a \<^verbatim>\<open>to_isb\<close> correction declared for the ISB thorax.\<close>

definition overcorrected_row :: "(example_bsys, example_joint, string) RowData" where
  "overcorrected_row =
     isb_row\<lparr>correction_cell := (\<lambda>seg. if seg = THORAX then StrCell ''to_isb'' else NanCell)\<rparr>"

text \<open>An ISB thorax with a child that is not ISB-oriented and of another orientation pattern.\<close>

definition mismatched_row :: "(example_bsys, example_joint, string) RowData" where
  "mismatched_row = isb_row\<lparr>child_biomech_sys := Some flipped_system\<rparr>"

text \<open>
  An ISB thorax with a scapula child that is ISB-oriented, has its origin off the ISB
  axes, and declares no correction.
\<close>

definition scapula_row :: "(example_bsys, example_joint, string) RowData" where
  "scapula_row =
     isb_row\<lparr>child_segment := SCAPULA, child_biomech_sys := Some off_axis_system\<rparr>"

text \<open>
  Example collaborators of the frame reader: every non-empty name is a landmark; the
  reference pose puts \<open>O\<close> at the origin and \<open>X\<close>, \<open>Y\<close>, \<open>Z\<close> one unit along the axes; the
  principal axis is the signed axis of the largest absolute component, X before Y before Z.
\<close>

fun example_principal_axis :: "ndarray \<Rightarrow> CartesianAxis" where
  "example_principal_axis (Vec3 x y z) =
     (if \<bar>y\<bar> \<le> \<bar>x\<bar> \<and> \<bar>z\<bar> \<le> \<bar>x\<bar> then (if 0 \<le> x then plusX else minusX)
      else if \<bar>z\<bar> \<le> \<bar>y\<bar> then (if 0 \<le> y then plusY else minusY)
      else (if 0 \<le> z then plusZ else minusZ))"
| "example_principal_axis NaN3 = plusX"

definition example_get_constant :: "AnatomicalLandmark \<Rightarrow> real \<times> real \<times> real" where
  "example_get_constant l =
     (if l = Landmark ''X'' then (1, 0, 0)
      else if l = Landmark ''Y'' then (0, 1, 0)
      else if l = Landmark ''Z'' then (0, 0, 1)
      else (0, 0, 0))"

definition example_frame_helpers :: frame_helpers where
  "example_frame_helpers =
     \<lparr>landmark_from_string = (\<lambda>s. if s = [] then Inl ValueError else Inr (Landmark s)),
      get_constant = example_get_constant,
      principal_axis = example_principal_axis,
      isb_landmarks = (\<lambda>seg. [Landmark ''Z'', Landmark ''Y'', Landmark ''O'']),
      origin_isb = (\<lambda>seg. Landmark ''O'')\<rparr>"

definition example_frame :: Frame where
  "example_frame =
     from_yz (StartEndVector (Landmark ''O'') (Landmark ''Y''))
             (StartEndVector (Landmark ''O'') (Landmark ''Z''))
             (Landmark ''O'') THORAX"

text \<open>The overcorrected row as \<^verbatim>\<open>check_segments_correction_validity\<close> leaves it.\<close>

definition overcorrected_row_checked :: "(example_bsys, example_joint, string) RowData" where
  "overcorrected_row_checked =
     overcorrected_row\<lparr>parent_segment_usable_for_rotation_data := Some False,
                       child_segment_usable_for_rotation_data := Some True,
                       parent_segment_usable_for_translation_data := Some False,
                       child_segment_usable_for_translation_data := Some False,
                       usable_rotation_data := Some False,
                       usable_translation_data := Some False\<rparr>"

text \<open>The scapula row as \<^verbatim>\<open>check_segments_correction_validity\<close> leaves it.\<close>

definition scapula_row_checked :: "(example_bsys, example_joint, string) RowData" where
  "scapula_row_checked =
     scapula_row\<lparr>parent_segment_usable_for_rotation_data := Some True,
                  child_segment_usable_for_rotation_data := Some True,
                  parent_segment_usable_for_translation_data := Some False,
                  child_segment_usable_for_translation_data := Some False,
                  usable_rotation_data := Some True,
                  usable_translation_data := Some False\<rparr>"

section \<open>Basic facts\<close>

lemma bind_result_Inr: "bind_result m f = Inr y \<longleftrightarrow> (\<exists>v. m = Inr v \<and> f v = Inr y)"
  by (cases m) (simp_all add: bind_result_def)

lemma bind_result_InrE:
  assumes "bind_result m f = Inr y"
  obtains v where "m = Inr v" and "f v = Inr y"
  using assms by (auto simp: bind_result_Inr)

lemma bind_result_simps [simp]:
  "bind_result (Inl e) f = Inl e"
  "bind_result (Inr v) f = f v"
  by (simp_all add: bind_result_def)

lemma py_and_Some: "py_and (Some a) (Some b) = Some (a \<and> b)"
  by (cases a) simp_all

section \<open>The row validator\<close>

subsection \<open>What each block does to the per-side flags\<close>

lemma parent_oriented_on_axis_block_flags:
  assumes "parent_oriented_on_axis_block h p pc st = st'"
  shows "(is_isb_oriented h p \<and> is_origin_on_an_isb_axis h p \<longrightarrow>
            parent_segment_usable_for_translation_data (snd (snd st')) = Some False \<and>
            parent_segment_usable_for_rotation_data (snd (snd st')) \<noteq> None) \<and>
         (\<not> (is_isb_oriented h p \<and> is_origin_on_an_isb_axis h p) \<longrightarrow>
            parent_segment_usable_for_translation_data (snd (snd st')) =
              parent_segment_usable_for_translation_data (snd (snd st)) \<and>
            parent_segment_usable_for_rotation_data (snd (snd st')) =
              parent_segment_usable_for_rotation_data (snd (snd st))) \<and>
         child_segment_usable_for_translation_data (snd (snd st')) =
           child_segment_usable_for_translation_data (snd (snd st)) \<and>
         child_segment_usable_for_rotation_data (snd (snd st')) =
           child_segment_usable_for_rotation_data (snd (snd st))"
  using assms
  by (cases st; cases st') (auto simp: parent_oriented_on_axis_block_def Let_def split: if_splits)

lemma child_oriented_on_axis_block_flags:
  assumes "child_oriented_on_axis_block h c cc st = st'"
  shows "(is_isb_oriented h c \<and> is_origin_on_an_isb_axis h c \<longrightarrow>
            child_segment_usable_for_translation_data (snd (snd st')) = Some False \<and>
            child_segment_usable_for_rotation_data (snd (snd st')) \<noteq> None) \<and>
         (\<not> (is_isb_oriented h c \<and> is_origin_on_an_isb_axis h c) \<longrightarrow>
            child_segment_usable_for_translation_data (snd (snd st')) =
              child_segment_usable_for_translation_data (snd (snd st)) \<and>
            child_segment_usable_for_rotation_data (snd (snd st')) =
              child_segment_usable_for_rotation_data (snd (snd st))) \<and>
         parent_segment_usable_for_translation_data (snd (snd st')) =
           parent_segment_usable_for_translation_data (snd (snd st)) \<and>
         parent_segment_usable_for_rotation_data (snd (snd st')) =
           parent_segment_usable_for_rotation_data (snd (snd st))"
  using assms
  by (cases st; cases st') (auto simp: child_oriented_on_axis_block_def Let_def split: if_splits)

lemma parent_oriented_off_axis_block_flags:
  assumes "parent_oriented_off_axis_block h p pc st = Inr st'"
  shows "(is_isb_oriented h p \<and> \<not> is_origin_on_an_isb_axis h p \<longrightarrow>
            parent_segment_usable_for_translation_data (snd (snd st')) = Some False \<and>
            parent_segment_usable_for_rotation_data (snd (snd st')) \<noteq> None) \<and>
         (\<not> (is_isb_oriented h p \<and> \<not> is_origin_on_an_isb_axis h p) \<longrightarrow>
            parent_segment_usable_for_translation_data (snd (snd st')) =
              parent_segment_usable_for_translation_data (snd (snd st)) \<and>
            parent_segment_usable_for_rotation_data (snd (snd st')) =
              parent_segment_usable_for_rotation_data (snd (snd st))) \<and>
         child_segment_usable_for_translation_data (snd (snd st')) =
           child_segment_usable_for_translation_data (snd (snd st)) \<and>
         child_segment_usable_for_rotation_data (snd (snd st')) =
           child_segment_usable_for_rotation_data (snd (snd st))"
  using assms
  by (cases st; cases st') (auto simp: parent_oriented_off_axis_block_def bind_result_Inr split: if_splits)

lemma child_oriented_off_axis_block_flags:
  assumes "child_oriented_off_axis_block h c cc st = Inr st'"
  shows "(is_isb_oriented h c \<and> \<not> is_origin_on_an_isb_axis h c \<longrightarrow>
            child_segment_usable_for_translation_data (snd (snd st')) = Some False \<and>
            child_segment_usable_for_rotation_data (snd (snd st')) \<noteq> None) \<and>
         (\<not> (is_isb_oriented h c \<and> \<not> is_origin_on_an_isb_axis h c) \<longrightarrow>
            child_segment_usable_for_translation_data (snd (snd st')) =
              child_segment_usable_for_translation_data (snd (snd st)) \<and>
            child_segment_usable_for_rotation_data (snd (snd st')) =
              child_segment_usable_for_rotation_data (snd (snd st))) \<and>
         parent_segment_usable_for_translation_data (snd (snd st')) =
           parent_segment_usable_for_translation_data (snd (snd st)) \<and>
         parent_segment_usable_for_rotation_data (snd (snd st')) =
           parent_segment_usable_for_rotation_data (snd (snd st))"
  using assms
  by (cases st; cases st') (auto simp: child_oriented_off_axis_block_def bind_result_Inr split: if_splits)

lemma parent_not_oriented_on_axis_block_flags:
  assumes "parent_not_oriented_on_axis_block h p pc st = Inr st'"
  shows "(\<not> is_isb_oriented h p \<and> is_origin_on_an_isb_axis h p \<longrightarrow>
            parent_segment_usable_for_translation_data (snd (snd st')) = Some False \<and>
            parent_segment_usable_for_rotation_data (snd (snd st')) \<noteq> None) \<and>
         (\<not> (\<not> is_isb_oriented h p \<and> is_origin_on_an_isb_axis h p) \<longrightarrow>
            parent_segment_usable_for_translation_data (snd (snd st')) =
              parent_segment_usable_for_translation_data (snd (snd st)) \<and>
            parent_segment_usable_for_rotation_data (snd (snd st')) =
              parent_segment_usable_for_rotation_data (snd (snd st))) \<and>
         child_segment_usable_for_translation_data (snd (snd st')) =
           child_segment_usable_for_translation_data (snd (snd st)) \<and>
         child_segment_usable_for_rotation_data (snd (snd st')) =
           child_segment_usable_for_rotation_data (snd (snd st))"
  using assms
  by (cases st; cases st') (auto simp: parent_not_oriented_on_axis_block_def bind_result_Inr split: if_splits)

lemma child_not_oriented_on_axis_block_flags:
  assumes "child_not_oriented_on_axis_block h c cc st = Inr st'"
  shows "(\<not> is_isb_oriented h c \<and> is_origin_on_an_isb_axis h c \<longrightarrow>
            child_segment_usable_for_translation_data (snd (snd st')) = Some False \<and>
            child_segment_usable_for_rotation_data (snd (snd st')) \<noteq> None) \<and>
         (\<not> (\<not> is_isb_oriented h c \<and> is_origin_on_an_isb_axis h c) \<longrightarrow>
            child_segment_usable_for_translation_data (snd (snd st')) =
              child_segment_usable_for_translation_data (snd (snd st)) \<and>
            child_segment_usable_for_rotation_data (snd (snd st')) =
              child_segment_usable_for_rotation_data (snd (snd st))) \<and>
         parent_segment_usable_for_translation_data (snd (snd st')) =
           parent_segment_usable_for_translation_data (snd (snd st)) \<and>
         parent_segment_usable_for_rotation_data (snd (snd st')) =
           parent_segment_usable_for_rotation_data (snd (snd st))"
  using assms
  by (cases st; cases st') (auto simp: child_not_oriented_on_axis_block_def bind_result_Inr split: if_splits)

lemma parent_not_oriented_off_axis_block_flags:
  assumes "parent_not_oriented_off_axis_block h p pc st = Inr st'"
  shows "(\<not> is_isb_oriented h p \<and> \<not> is_origin_on_an_isb_axis h p \<longrightarrow>
            parent_segment_usable_for_translation_data (snd (snd st')) = Some False \<and>
            parent_segment_usable_for_rotation_data (snd (snd st')) \<noteq> None) \<and>
         (\<not> (\<not> is_isb_oriented h p \<and> \<not> is_origin_on_an_isb_axis h p) \<longrightarrow>
            parent_segment_usable_for_translation_data (snd (snd st')) =
              parent_segment_usable_for_translation_data (snd (snd st)) \<and>
            parent_segment_usable_for_rotation_data (snd (snd st')) =
              parent_segment_usable_for_rotation_data (snd (snd st))) \<and>
         child_segment_usable_for_translation_data (snd (snd st')) =
           child_segment_usable_for_translation_data (snd (snd st)) \<and>
         child_segment_usable_for_rotation_data (snd (snd st')) =
           child_segment_usable_for_rotation_data (snd (snd st))"
  using assms
  by (cases st; cases st') (auto simp: parent_not_oriented_off_axis_block_def bind_result_Inr split: if_splits)

lemma child_not_oriented_off_axis_block_flags:
  assumes "child_not_oriented_off_axis_block h c cc st = Inr st'"
  shows "(\<not> is_isb_oriented h c \<and> \<not> is_origin_on_an_isb_axis h c \<longrightarrow>
            child_segment_usable_for_translation_data (snd (snd st')) = Some False \<and>
            child_segment_usable_for_rotation_data (snd (snd st')) \<noteq> None) \<and>
         (\<not> (\<not> is_isb_oriented h c \<and> \<not> is_origin_on_an_isb_axis h c) \<longrightarrow>
            child_segment_usable_for_translation_data (snd (snd st')) =
              child_segment_usable_for_translation_data (snd (snd st)) \<and>
            child_segment_usable_for_rotation_data (snd (snd st')) =
              child_segment_usable_for_rotation_data (snd (snd st))) \<and>
         parent_segment_usable_for_translation_data (snd (snd st')) =
           parent_segment_usable_for_translation_data (snd (snd st)) \<and>
         parent_segment_usable_for_rotation_data (snd (snd st')) =
           parent_segment_usable_for_rotation_data (snd (snd st))"
  using assms
  by (cases st; cases st') (auto simp: child_not_oriented_off_axis_block_def bind_result_Inr split: if_splits)

subsection \<open>The flags after the whole method\<close>

lemma apply_correction_rules_states:
  assumes "apply_correction_rules h p c pc cc r = Inr res"
  shows "\<exists>s1 s2 s3 s4 s5 s6 s7 s8 s9.
      parent_oriented_on_axis_block h p pc s1 = s2 \<and>
      child_oriented_on_axis_block h c cc s2 = s3 \<and>
      parent_oriented_off_axis_block h p pc s3 = Inr s4 \<and>
      child_oriented_off_axis_block h c cc s4 = Inr s5 \<and>
      parent_not_oriented_on_axis_block h p pc s5 = Inr s6 \<and>
      child_not_oriented_on_axis_block h c cc s6 = Inr s7 \<and>
      parent_not_oriented_off_axis_block h p pc s7 = Inr s8 \<and>
      child_not_oriented_off_axis_block h c cc s8 = Inr s9 \<and>
      combine_sides s9 = res"
  using assms unfolding apply_correction_rules_def
  by (elim bind_result_InrE) (simp only: sum.inject, blast)

lemma parent_side_settled:
  assumes s2: "parent_oriented_on_axis_block h p pc s1 = s2" and
      s3: "child_oriented_on_axis_block h c cc s2 = s3" and
      b4: "parent_oriented_off_axis_block h p pc s3 = Inr s4" and
      b5: "child_oriented_off_axis_block h c cc s4 = Inr s5" and
      b6: "parent_not_oriented_on_axis_block h p pc s5 = Inr s6" and
      b7: "child_not_oriented_on_axis_block h c cc s6 = Inr s7" and
      b8: "parent_not_oriented_off_axis_block h p pc s7 = Inr s8" and
      b9: "child_not_oriented_off_axis_block h c cc s8 = Inr s9"
  shows "parent_segment_usable_for_translation_data (snd (snd s9)) = Some False \<and>
         parent_segment_usable_for_rotation_data (snd (snd s9)) \<noteq> None"
proof -
  note f2 = parent_oriented_on_axis_block_flags [OF s2]
  note f3 = child_oriented_on_axis_block_flags [OF s3]
  note f4 = parent_oriented_off_axis_block_flags [OF b4]
  note f5 = child_oriented_off_axis_block_flags [OF b5]
  note f6 = parent_not_oriented_on_axis_block_flags [OF b6]
  note f7 = child_not_oriented_on_axis_block_flags [OF b7]
  note f8 = parent_not_oriented_off_axis_block_flags [OF b8]
  note f9 = child_not_oriented_off_axis_block_flags [OF b9]
  show ?thesis
    using f2 f3 f4 f5 f6 f7 f8 f9
    by (cases "is_isb_oriented h p"; cases "is_origin_on_an_isb_axis h p") simp_all
qed

lemma child_side_settled:
  assumes s2: "parent_oriented_on_axis_block h p pc s1 = s2" and
      s3: "child_oriented_on_axis_block h c cc s2 = s3" and
      b4: "parent_oriented_off_axis_block h p pc s3 = Inr s4" and
      b5: "child_oriented_off_axis_block h c cc s4 = Inr s5" and
      b6: "parent_not_oriented_on_axis_block h p pc s5 = Inr s6" and
      b7: "child_not_oriented_on_axis_block h c cc s6 = Inr s7" and
      b8: "parent_not_oriented_off_axis_block h p pc s7 = Inr s8" and
      b9: "child_not_oriented_off_axis_block h c cc s8 = Inr s9"
  shows "child_segment_usable_for_translation_data (snd (snd s9)) = Some False \<and>
         child_segment_usable_for_rotation_data (snd (snd s9)) \<noteq> None"
proof -
  note f2 = parent_oriented_on_axis_block_flags [OF s2]
  note f3 = child_oriented_on_axis_block_flags [OF s3]
  note f4 = parent_oriented_off_axis_block_flags [OF b4]
  note f5 = child_oriented_off_axis_block_flags [OF b5]
  note f6 = parent_not_oriented_on_axis_block_flags [OF b6]
  note f7 = child_not_oriented_on_axis_block_flags [OF b7]
  note f8 = parent_not_oriented_off_axis_block_flags [OF b8]
  note f9 = child_not_oriented_off_axis_block_flags [OF b9]
  show ?thesis
    using f2 f3 f4 f5 f6 f7 f8 f9
    by (cases "is_isb_oriented h c"; cases "is_origin_on_an_isb_axis h c") simp_all
qed

lemma combine_sides_flags:
  assumes fin: "combine_sides s9 = (ret, r')"
   and parent: "parent_segment_usable_for_translation_data (snd (snd s9)) = Some False"
   and child: "child_segment_usable_for_translation_data (snd (snd s9)) = Some False"
   and rot: "parent_segment_usable_for_rotation_data (snd (snd s9)) = Some pr"
            "child_segment_usable_for_rotation_data (snd (snd s9)) = Some cr"
  shows "parent_segment_usable_for_rotation_data r' = Some pr \<and>
         child_segment_usable_for_rotation_data r' = Some cr \<and>
         parent_segment_usable_for_translation_data r' = Some False \<and>
         child_segment_usable_for_translation_data r' = Some False \<and>
         usable_rotation_data r' = Some (cr \<and> pr) \<and>
         usable_translation_data r' = Some False \<and>
         ret = (Some (cr \<and> pr), Some False)"
  using assms
  by (cases s9) (auto simp: combine_sides_def Let_def py_and_Some)

lemma apply_correction_rules_flags:
  assumes "apply_correction_rules h p c pc cc r = Inr (ret, r')"
  shows "\<exists>pr cr.
           parent_segment_usable_for_rotation_data r' = Some pr \<and>
           child_segment_usable_for_rotation_data r' = Some cr \<and>
           parent_segment_usable_for_translation_data r' = Some False \<and>
           child_segment_usable_for_translation_data r' = Some False \<and>
           usable_rotation_data r' = Some (cr \<and> pr) \<and>
           usable_translation_data r' = Some False \<and>
           ret = (Some (cr \<and> pr), Some False)"
proof -
  from apply_correction_rules_states [OF assms]
  obtain s1 s2 s3 s4 s5 s6 s7 s8 s9 where
      s2: "parent_oriented_on_axis_block h p pc s1 = s2" and
      s3: "child_oriented_on_axis_block h c cc s2 = s3" and
      b4: "parent_oriented_off_axis_block h p pc s3 = Inr s4" and
      b5: "child_oriented_off_axis_block h c cc s4 = Inr s5" and
      b6: "parent_not_oriented_on_axis_block h p pc s5 = Inr s6" and
      b7: "child_not_oriented_on_axis_block h c cc s6 = Inr s7" and
      b8: "parent_not_oriented_off_axis_block h p pc s7 = Inr s8" and
      b9: "child_not_oriented_off_axis_block h c cc s8 = Inr s9" and
      fin: "combine_sides s9 = (ret, r')"
    by blast
  note parent = parent_side_settled [OF s2 s3 b4 b5 b6 b7 b8 b9]
  note child = child_side_settled [OF s2 s3 b4 b5 b6 b7 b8 b9]
  from parent obtain pr where
    pr: "parent_segment_usable_for_rotation_data (snd (snd s9)) = Some pr"
    by blast
  from child obtain cr where
    cr: "child_segment_usable_for_rotation_data (snd (snd s9)) = Some cr"
    by blast
  from combine_sides_flags [OF fin conjunct1 [OF parent] conjunct1 [OF child] pr cr]
  show ?thesis by blast
qed

lemma check_segments_correction_validity_rules:
  assumes "check_segments_correction_validity h r = Inr res"
  shows "\<exists>p c pc cc.
           parent_biomech_sys r = Some p \<and> child_biomech_sys r = Some c \<and>
           extract_corrections h r (parent_segment r) = Inr pc \<and>
           extract_corrections h r (child_segment r) = Inr cc \<and>
           apply_correction_rules h p c pc cc r = Inr res"
  using assms unfolding check_segments_correction_validity_def
  by (elim bind_result_InrE) (auto split: option.splits)

lemma check_segments_correction_validity_flags:
  assumes "check_segments_correction_validity h r = Inr (ret, r')"
  shows "\<exists>pr cr.
           parent_segment_usable_for_rotation_data r' = Some pr \<and>
           child_segment_usable_for_rotation_data r' = Some cr \<and>
           parent_segment_usable_for_translation_data r' = Some False \<and>
           child_segment_usable_for_translation_data r' = Some False \<and>
           usable_rotation_data r' = Some (cr \<and> pr) \<and>
           usable_translation_data r' = Some False \<and>
           ret = (Some (cr \<and> pr), Some False)"
proof -
  from check_segments_correction_validity_rules [OF assms]
  obtain p c pc cc where "apply_correction_rules h p c pc cc r = Inr (ret, r')"
    by blast
  then show ?thesis by (rule apply_correction_rules_flags)
qed


subsection \<open>What \<^verbatim>\<open>set_rotation_correction_callback\<close> touches\<close>

lemma set_rotation_correction_callback_touches:
  assumes "set_rotation_correction_callback h r = (e, r')"
  shows "\<exists>u cb. r' = r\<lparr>usable_rotation_data := u, rotation_correction_callback := cb\<rparr> \<and>
                 (e = None \<longrightarrow> u = Some True \<and> cb \<noteq> None)"
proof (cases "parent_biomech_sys r")
  case None
  with assms have "r' = r" "e \<noteq> None"
    by (auto simp: set_rotation_correction_callback_def)
  moreover have "r = r\<lparr>usable_rotation_data := usable_rotation_data r,
                       rotation_correction_callback := rotation_correction_callback r\<rparr>"
    by simp
  ultimately show ?thesis by metis
next
  case (Some p)
  note p = this
  show ?thesis
  proof (cases "child_biomech_sys r")
    case None
    with assms p have "r' = r" "e \<noteq> None"
      by (auto simp: set_rotation_correction_callback_def)
    moreover have "r = r\<lparr>usable_rotation_data := usable_rotation_data r,
                         rotation_correction_callback := rotation_correction_callback r\<rparr>"
      by simp
    ultimately show ?thesis by metis
  next
    case (Some c)
    note c = this
    show ?thesis
    proof (cases "joint r")
      case None
      have same: "r = r\<lparr>usable_rotation_data := usable_rotation_data r,
                         rotation_correction_callback := rotation_correction_callback r\<rparr>"
        by simp
      from assms p c None
      have "(r' = r \<and> e \<noteq> None) \<or>
            (r' = r\<lparr>usable_rotation_data := Some False, rotation_correction_callback := None\<rparr> \<and>
             e \<noteq> None)"
        by (auto simp: set_rotation_correction_callback_def Let_def split: if_splits)
      with same show ?thesis by metis
    next
      case (Some j)
      from assms p c Some
      have "(e \<noteq> None \<and>
             r' = r\<lparr>usable_rotation_data := Some False, rotation_correction_callback := None\<rparr>) \<or>
            (\<exists>cb. r' = r\<lparr>usable_rotation_data := Some True,
                           rotation_correction_callback := Some cb\<rparr>)"
        by (auto simp: set_rotation_correction_callback_def Let_def split: if_splits prod.splits)
      then show ?thesis by blast
    qed
  qed
qed

lemmas block_defs =
  both_isb_block_def parent_oriented_on_axis_block_def child_oriented_on_axis_block_def
  parent_oriented_off_axis_block_def child_oriented_off_axis_block_def
  parent_not_oriented_on_axis_block_def child_not_oriented_on_axis_block_def
  parent_not_oriented_off_axis_block_def child_not_oriented_off_axis_block_def

lemmas correction_check_defs =
  check_segment_has_no_correction_def check_segment_has_kolz_correction_def
  check_segment_has_to_isb_correction_def check_segment_has_to_isb_like_correction_def
  not_oriented_output_def correction_in_def or_empty_def

section \<open>Properties of the row validator\<close>

text \<open>
  C1.  When at least one of the two coordinate systems of a row is not ISB-oriented and
  \<open>check_same_orientation\<close> fails on them, \<^verbatim>\<open>set_rotation_correction_callback\<close> raises
  \<^verbatim>\<open>NotImplementedError\<close> (the code's exception for the unsupported conversion), and
  the row it leaves has no callback stored and its rotation data marked unusable.
\<close>

theorem mismatched_orientation_raises:
  assumes "parent_biomech_sys r = Some p"
    and "child_biomech_sys r = Some c"
    and "\<not> is_isb_oriented h p \<or> \<not> is_isb_oriented h c"
    and "\<not> check_same_orientation h p c"
  shows "set_rotation_correction_callback h r =
           (Some NotImplementedError,
            r\<lparr>usable_rotation_data := Some False, rotation_correction_callback := None\<rparr>) \<and>
         rotation_correction_callback (snd (set_rotation_correction_callback h r)) = None"
  using assms by (auto simp: set_rotation_correction_callback_def Let_def)

theorem mismatched_orientation_raises_witness:
  "parent_biomech_sys mismatched_row = Some isb_system \<and>
   child_biomech_sys mismatched_row = Some flipped_system \<and>
   \<not> is_isb_oriented example_helpers flipped_system \<and>
   \<not> check_same_orientation example_helpers isb_system flipped_system \<and>
   set_rotation_correction_callback example_helpers mismatched_row =
     (Some NotImplementedError,
      mismatched_row\<lparr>usable_rotation_data := Some False, rotation_correction_callback := None\<rparr>)"
proof -
  have p: "parent_biomech_sys mismatched_row = Some isb_system"
    by (simp add: mismatched_row_def isb_row_def blank_row_def)
  have c: "child_biomech_sys mismatched_row = Some flipped_system"
    by (simp add: mismatched_row_def isb_row_def blank_row_def)
  have o: "\<not> is_isb_oriented example_helpers isb_system \<or>
           \<not> is_isb_oriented example_helpers flipped_system"
    by (simp add: example_helpers_def flipped_system_def)
  have s: "\<not> check_same_orientation example_helpers isb_system flipped_system"
    by (simp add: example_helpers_def flipped_system_def isb_system_def)
  from mismatched_orientation_raises [OF p c o s] p c s show ?thesis
    by (simp add: example_helpers_def flipped_system_def)
qed

text \<open>
  C2.  Whenever \<^verbatim>\<open>check_segments_correction_validity\<close> returns, the translation flag it
  stores and returns is \<^verbatim>\<open>False\<close>: for each side exactly one of the four blocks on
  (ISB-oriented, origin on an ISB axis) runs, and each sets that side's translation flag
  to \<^verbatim>\<open>False\<close>.  So the flag is \<^verbatim>\<open>True\<close> on no row, in particular on none with a side that
  is not fully ISB, and it is \<^verbatim>\<open>False\<close> whatever the rotation flag is.
\<close>

theorem translation_unusable_after_check:
  assumes "check_segments_correction_validity h r = Inr (ret, r')"
  shows "usable_translation_data r' = Some False \<and> snd ret = Some False \<and>
         usable_translation_data r' \<noteq> Some True"
  using check_segments_correction_validity_flags [OF assms] by auto

theorem translation_unusable_after_check_witness:
  "check_segments_correction_validity example_helpers isb_row =
     Inr ((Some True, Some False),
          isb_row\<lparr>parent_segment_usable_for_rotation_data := Some True,
                  child_segment_usable_for_rotation_data := Some True,
                  parent_segment_usable_for_translation_data := Some False,
                  child_segment_usable_for_translation_data := Some False,
                  usable_rotation_data := Some True,
                  usable_translation_data := Some False\<rparr>) \<and>
   usable_translation_data
     (isb_row\<lparr>parent_segment_usable_for_rotation_data := Some True,
              child_segment_usable_for_rotation_data := Some True,
              parent_segment_usable_for_translation_data := Some False,
              child_segment_usable_for_translation_data := Some False,
              usable_rotation_data := Some True,
              usable_translation_data := Some False\<rparr>) = Some False"
proof -
  have run: "check_segments_correction_validity example_helpers isb_row =
     Inr ((Some True, Some False),
          isb_row\<lparr>parent_segment_usable_for_rotation_data := Some True,
                  child_segment_usable_for_rotation_data := Some True,
                  parent_segment_usable_for_translation_data := Some False,
                  child_segment_usable_for_translation_data := Some False,
                  usable_rotation_data := Some True,
                  usable_translation_data := Some False\<rparr>)"
    by (simp add: check_segments_correction_validity_def apply_correction_rules_def
        extract_corrections_def block_defs combine_sides_def
        check_segment_has_no_correction_def
        isb_row_def blank_row_def example_helpers_def isb_system_def Let_def)
  from translation_unusable_after_check [OF run] run show ?thesis by simp
qed

text \<open>
  C3.  The scapula row: the child is the scapula, ISB-oriented, with its origin off the
  ISB axes, and its correction cell is empty, so the Kolz check on it fails.  The
  method nevertheless stores \<^verbatim>\<open>True\<close> in \<^verbatim>\<open>child_segment_usable_for_rotation_data\<close>: the
  child's block assigns the Kolz result to \<^verbatim>\<open>parent_output\<close> and stores the untouched
  \<^verbatim>\<open>child_output\<close>.
\<close>

theorem scapula_child_without_kolz_marked_usable:
  "child_segment scapula_row = SCAPULA \<and>
   child_biomech_sys scapula_row = Some off_axis_system \<and>
   is_isb_oriented example_helpers off_axis_system \<and>
   \<not> is_origin_on_an_isb_axis example_helpers off_axis_system \<and>
   extract_corrections example_helpers scapula_row SCAPULA = Inr None \<and>
   check_segment_has_kolz_correction None = Inr False \<and>
   check_segments_correction_validity example_helpers scapula_row =
     Inr ((Some True, Some False), scapula_row_checked) \<and>
   child_segment_usable_for_rotation_data scapula_row_checked = Some True"
  by (simp add: check_segments_correction_validity_def apply_correction_rules_def
      extract_corrections_def block_defs combine_sides_def correction_check_defs
      scapula_row_def scapula_row_checked_def isb_row_def blank_row_def
      example_helpers_def isb_system_def off_axis_system_def Let_def)

text \<open>
  C4, as stated, fails.  On the overcorrected row the check stores \<^verbatim>\<open>False\<close> for the
  parent side and \<^verbatim>\<open>False\<close> in \<^verbatim>\<open>usable_rotation_data\<close>; the callback resolution that
  follows returns normally and leaves \<^verbatim>\<open>usable_rotation_data\<close> \<^verbatim>\<open>True\<close>, which is not the
  conjunction of the two per-side flags.
\<close>

theorem rotation_flag_overwritten_counterexample:
  "check_segments_correction_validity example_helpers overcorrected_row =
     Inr ((Some False, Some False), overcorrected_row_checked) \<and>
   set_rotation_correction_callback example_helpers overcorrected_row_checked =
     (None, overcorrected_row_checked\<lparr>usable_rotation_data := Some True,
              rotation_correction_callback := Some (FromTuple (1, 1, 1))\<rparr>) \<and>
   parent_segment_usable_for_rotation_data
     (snd (set_rotation_correction_callback example_helpers overcorrected_row_checked)) = Some False \<and>
   child_segment_usable_for_rotation_data
     (snd (set_rotation_correction_callback example_helpers overcorrected_row_checked)) = Some True \<and>
   usable_rotation_data
     (snd (set_rotation_correction_callback example_helpers overcorrected_row_checked)) = Some True"
  by (simp add: check_segments_correction_validity_def apply_correction_rules_def
      extract_corrections_def block_defs combine_sides_def correction_check_defs
      set_rotation_correction_callback_def
      overcorrected_row_def overcorrected_row_checked_def isb_row_def blank_row_def
      example_helpers_def example_correction_str_to_enum_def isb_system_def yxz_joint_def Let_def)

text \<open>
  C4, amended.  When \<^verbatim>\<open>check_segments_correction_validity\<close> returns, all four per-side
  flags are booleans, \<^verbatim>\<open>usable_rotation_data\<close> is the conjunction of the two rotation
  flags, \<^verbatim>\<open>usable_translation_data\<close> the conjunction of the two translation flags, and
  the pair of them is returned.  A following \<^verbatim>\<open>set_rotation_correction_callback\<close>, raising
  or not, keeps the four per-side flags and \<^verbatim>\<open>usable_translation_data\<close>; it does assign
  \<^verbatim>\<open>usable_rotation_data\<close>, which is \<^verbatim>\<open>True\<close> whenever the call returns.
\<close>

theorem usable_flags_conjunction_after_check:
  assumes "check_segments_correction_validity h r = Inr (ret, r1)"
    and "set_rotation_correction_callback h r1 = (e, r2)"
  shows "\<exists>pr cr pt ct.
           parent_segment_usable_for_rotation_data r1 = Some pr \<and>
           child_segment_usable_for_rotation_data r1 = Some cr \<and>
           parent_segment_usable_for_translation_data r1 = Some pt \<and>
           child_segment_usable_for_translation_data r1 = Some ct \<and>
           usable_rotation_data r1 = Some (cr \<and> pr) \<and>
           usable_translation_data r1 = Some (ct \<and> pt) \<and>
           ret = (Some (cr \<and> pr), Some (ct \<and> pt)) \<and>
           parent_segment_usable_for_rotation_data r2 = Some pr \<and>
           child_segment_usable_for_rotation_data r2 = Some cr \<and>
           parent_segment_usable_for_translation_data r2 = Some pt \<and>
           child_segment_usable_for_translation_data r2 = Some ct \<and>
           usable_translation_data r2 = Some (ct \<and> pt) \<and>
           (e = None \<longrightarrow> usable_rotation_data r2 = Some True)"
proof -
  from check_segments_correction_validity_flags [OF assms(1)]
  obtain pr cr where flags:
    "parent_segment_usable_for_rotation_data r1 = Some pr"
    "child_segment_usable_for_rotation_data r1 = Some cr"
    "parent_segment_usable_for_translation_data r1 = Some False"
    "child_segment_usable_for_translation_data r1 = Some False"
    "usable_rotation_data r1 = Some (cr \<and> pr)"
    "usable_translation_data r1 = Some False"
    "ret = (Some (cr \<and> pr), Some False)"
    by blast
  from set_rotation_correction_callback_touches [OF assms(2)]
  obtain u cb where r2: "r2 = r1\<lparr>usable_rotation_data := u, rotation_correction_callback := cb\<rparr>"
    and u: "e = None \<longrightarrow> u = Some True"
    by blast
  have "parent_segment_usable_for_rotation_data r1 = Some pr \<and>
        child_segment_usable_for_rotation_data r1 = Some cr \<and>
        parent_segment_usable_for_translation_data r1 = Some False \<and>
        child_segment_usable_for_translation_data r1 = Some False \<and>
        usable_rotation_data r1 = Some (cr \<and> pr) \<and>
        usable_translation_data r1 = Some (False \<and> False) \<and>
        ret = (Some (cr \<and> pr), Some (False \<and> False)) \<and>
        parent_segment_usable_for_rotation_data r2 = Some pr \<and>
        child_segment_usable_for_rotation_data r2 = Some cr \<and>
        parent_segment_usable_for_translation_data r2 = Some False \<and>
        child_segment_usable_for_translation_data r2 = Some False \<and>
        usable_translation_data r2 = Some (False \<and> False) \<and>
        (e = None \<longrightarrow> usable_rotation_data r2 = Some True)"
    using flags u by (simp add: r2)
  then show ?thesis by blast
qed

theorem usable_flags_conjunction_after_check_witness:
  "check_segments_correction_validity example_helpers overcorrected_row =
     Inr ((Some False, Some False), overcorrected_row_checked) \<and>
   set_rotation_correction_callback example_helpers overcorrected_row_checked =
     (None, overcorrected_row_checked\<lparr>usable_rotation_data := Some True,
              rotation_correction_callback := Some (FromTuple (1, 1, 1))\<rparr>) \<and>
   usable_rotation_data overcorrected_row_checked = Some (True \<and> False) \<and>
   usable_translation_data
     (overcorrected_row_checked\<lparr>usable_rotation_data := Some True,
        rotation_correction_callback := Some (FromTuple (1, 1, 1))\<rparr>) = Some (False \<and> False) \<and>
   usable_rotation_data
     (overcorrected_row_checked\<lparr>usable_rotation_data := Some True,
        rotation_correction_callback := Some (FromTuple (1, 1, 1))\<rparr>) = Some True"
proof -
  have run1: "check_segments_correction_validity example_helpers overcorrected_row =
     Inr ((Some False, Some False), overcorrected_row_checked)"
    by (simp add: check_segments_correction_validity_def apply_correction_rules_def
        extract_corrections_def block_defs combine_sides_def correction_check_defs
        overcorrected_row_def overcorrected_row_checked_def isb_row_def blank_row_def
        example_helpers_def example_correction_str_to_enum_def isb_system_def Let_def)
  have run2: "set_rotation_correction_callback example_helpers overcorrected_row_checked =
     (None, overcorrected_row_checked\<lparr>usable_rotation_data := Some True,
              rotation_correction_callback := Some (FromTuple (1, 1, 1))\<rparr>)"
    by (simp add: set_rotation_correction_callback_def
        overcorrected_row_def overcorrected_row_checked_def isb_row_def blank_row_def
        example_helpers_def isb_system_def yxz_joint_def Let_def)
  from usable_flags_conjunction_after_check [OF run1 run2] run1 run2
  show ?thesis by auto
qed

text \<open>
  C6.  When both coordinate systems are ISB-oriented and the joint's declared sequence
  is the canonical one (\<^verbatim>\<open>is_joint_sequence_isb\<close>), the call returns with the callback
  \<^verbatim>\<open>get_angle_conversion_callback_from_tuple((1, 1, 1))\<close> stored, and the sign-factor
  conversion with factors \<open>(1, 1, 1)\<close> maps every angle triple to itself.
\<close>

theorem canonical_sequence_identity_callback:
  assumes "parent_biomech_sys r = Some p"
    and "child_biomech_sys r = Some c"
    and "is_isb_oriented h p"
    and "is_isb_oriented h c"
    and "joint r = Some j"
    and "is_joint_sequence_isb h j"
  shows "set_rotation_correction_callback h r =
           (None, r\<lparr>usable_rotation_data := Some True,
                    rotation_correction_callback := Some (FromTuple (1, 1, 1))\<rparr>) \<and>
         rotation_correction_callback (snd (set_rotation_correction_callback h r)) =
           Some (FromTuple (1, 1, 1)) \<and>
         apply_sign_factors (1, 1, 1) angles = angles"
  using assms
  by (cases angles) (simp add: set_rotation_correction_callback_def apply_sign_factors_def)

theorem canonical_sequence_identity_callback_witness:
  "parent_biomech_sys isb_row = Some isb_system \<and>
   child_biomech_sys isb_row = Some isb_system \<and>
   is_isb_oriented example_helpers isb_system \<and>
   joint isb_row = Some yxz_joint \<and>
   is_joint_sequence_isb example_helpers yxz_joint \<and>
   rotation_correction_callback (snd (set_rotation_correction_callback example_helpers isb_row)) =
     Some (FromTuple (1, 1, 1)) \<and>
   apply_sign_factors (1, 1, 1) (10, -20, 30) = (10, -20, 30)"
proof -
  have p: "parent_biomech_sys isb_row = Some isb_system"
    and c: "child_biomech_sys isb_row = Some isb_system"
    and j: "joint isb_row = Some yxz_joint"
    by (simp_all add: isb_row_def blank_row_def)
  have o: "is_isb_oriented example_helpers isb_system"
    by (simp add: example_helpers_def isb_system_def)
  have s: "is_joint_sequence_isb example_helpers yxz_joint"
    by (simp add: example_helpers_def yxz_joint_def)
  from canonical_sequence_identity_callback [OF p c o o j s, of "(10, -20, 30)"] p c o j s
  show ?thesis by simp
qed

text \<open>
  C10.  When \<^verbatim>\<open>set_rotation_correction_callback\<close> returns without raising, the row it
  leaves is the row it was given with \<^verbatim>\<open>usable_rotation_data\<close> set to \<^verbatim>\<open>True\<close> and a
  callback stored in \<^verbatim>\<open>rotation_correction_callback\<close>; every other attribute is as before,
  whatever \<^verbatim>\<open>usable_rotation_data\<close> held.
\<close>

theorem callback_resolution_frame:
  assumes "set_rotation_correction_callback h r = (None, r')"
  shows "usable_rotation_data r' = Some True \<and>
         (\<exists>cb. rotation_correction_callback r' = Some cb) \<and>
         r' = r\<lparr>usable_rotation_data := Some True,
                rotation_correction_callback := rotation_correction_callback r'\<rparr> \<and>
         joint r' = joint r \<and>
         parent_biomech_sys r' = parent_biomech_sys r \<and>
         child_biomech_sys r' = child_biomech_sys r \<and>
         parent_segment_usable_for_rotation_data r' = parent_segment_usable_for_rotation_data r \<and>
         child_segment_usable_for_rotation_data r' = child_segment_usable_for_rotation_data r \<and>
         parent_segment_usable_for_translation_data r' = parent_segment_usable_for_translation_data r \<and>
         child_segment_usable_for_translation_data r' = child_segment_usable_for_translation_data r \<and>
         usable_translation_data r' = usable_translation_data r \<and>
         translation_correction_callback r' = translation_correction_callback r \<and>
         parent_definition_risk r' = parent_definition_risk r \<and>
         child_definition_risk r' = child_definition_risk r"
proof -
  from set_rotation_correction_callback_touches [OF assms]
  obtain u cb where r': "r' = r\<lparr>usable_rotation_data := u, rotation_correction_callback := cb\<rparr>"
    and "u = Some True" and "cb \<noteq> None"
    by blast
  then show ?thesis by auto
qed

theorem callback_resolution_frame_witness:
  "set_rotation_correction_callback example_helpers overcorrected_row_checked =
     (None, overcorrected_row_checked\<lparr>usable_rotation_data := Some True,
              rotation_correction_callback := Some (FromTuple (1, 1, 1))\<rparr>) \<and>
   usable_rotation_data overcorrected_row_checked = Some False \<and>
   usable_rotation_data
     (overcorrected_row_checked\<lparr>usable_rotation_data := Some True,
        rotation_correction_callback := Some (FromTuple (1, 1, 1))\<rparr>) = Some True \<and>
   parent_segment_usable_for_rotation_data
     (overcorrected_row_checked\<lparr>usable_rotation_data := Some True,
        rotation_correction_callback := Some (FromTuple (1, 1, 1))\<rparr>) =
     parent_segment_usable_for_rotation_data overcorrected_row_checked"
proof -
  have run: "set_rotation_correction_callback example_helpers overcorrected_row_checked =
     (None, overcorrected_row_checked\<lparr>usable_rotation_data := Some True,
              rotation_correction_callback := Some (FromTuple (1, 1, 1))\<rparr>)"
    by (simp add: set_rotation_correction_callback_def
        overcorrected_row_def overcorrected_row_checked_def isb_row_def blank_row_def
        example_helpers_def isb_system_def yxz_joint_def Let_def)
  from callback_resolution_frame [OF run] run show ?thesis
    by (simp add: overcorrected_row_checked_def)
qed

section \<open>Strings\<close>

lemma starts_with_iff: "starts_with s p \<longleftrightarrow> (\<exists>t. s = p @ t)"
  by (induction s p rule: starts_with.induct) auto

lemma str_in_iff: "str_in sub s \<longleftrightarrow> (\<exists>pre post. s = pre @ sub @ post)"
proof (induction s)
  case Nil
  then show ?case by auto
next
  case (Cons c cs)
  show ?case
  proof
    assume "str_in sub (c # cs)"
    then consider "starts_with (c # cs) sub" | "str_in sub cs" by auto
    then show "\<exists>pre post. c # cs = pre @ sub @ post"
    proof cases
      case 1
      then obtain t where "c # cs = sub @ t" by (auto simp: starts_with_iff)
      then have "c # cs = [] @ sub @ t" by simp
      then show ?thesis by blast
    next
      case 2
      with Cons obtain pre post where "cs = pre @ sub @ post" by blast
      then have "c # cs = (c # pre) @ sub @ post" by simp
      then show ?thesis by blast
    qed
  next
    assume "\<exists>pre post. c # cs = pre @ sub @ post"
    then obtain pre post where eq: "c # cs = pre @ sub @ post" by blast
    show "str_in sub (c # cs)"
    proof (cases pre)
      case Nil
      with eq have "starts_with (c # cs) sub" by (auto simp: starts_with_iff)
      then show ?thesis by simp
    next
      case (Cons a pre')
      with eq have "cs = pre' @ sub @ post" by simp
      with Cons.IH have "str_in sub cs" by blast
      then show ?thesis by simp
    qed
  qed
qed

section \<open>Properties of the frame reader\<close>

lemma and_then_True: "and_then a b = Inr True \<longleftrightarrow> a = Inr True \<and> b = Inr True"
  by (cases a) (auto simp: and_then_def)

lemma bind_result_Inr_bool:
  "bind_result m (\<lambda>d. Inr (P d)) = Inr True \<longleftrightarrow> (\<exists>d. m = Inr d \<and> P d)"
  by (cases m) auto

text \<open>
  C5.  \<^verbatim>\<open>is_isb\<close> returns \<^verbatim>\<open>True\<close> exactly when each of the five properties does, and
  each property is a query of its own: the frame's landmarks as a set are the segment's
  ISB landmarks, the principal directions of the x, y and z axes are +X, +Y and +Z, and
  the origin is the segment's ISB origin.
\<close>

theorem is_isb_iff_five_components:
  "(is_isb h f = Inr True \<longleftrightarrow>
      has_isb_landmarks h f = Inr True \<and>
      is_x_axis_postero_anterior h f = Inr True \<and>
      is_y_axis_supero_inferior h f = Inr True \<and>
      is_z_axis_medio_lateral h f = Inr True \<and>
      is_origin_isb h f = Inr True) \<and>
   (has_isb_landmarks h f = Inr True \<longleftrightarrow>
      (\<exists>ls. frame_landmarks f = Inr ls \<and> set ls = set (isb_landmarks h (segment f)))) \<and>
   (is_x_axis_postero_anterior h f = Inr True \<longleftrightarrow> principal_direction h (x_axis f) = Inr plusX) \<and>
   (is_y_axis_supero_inferior h f = Inr True \<longleftrightarrow> principal_direction h (y_axis f) = Inr plusY) \<and>
   (is_z_axis_medio_lateral h f = Inr True \<longleftrightarrow> principal_direction h (z_axis f) = Inr plusZ) \<and>
   (is_origin_isb h f = Inr True \<longleftrightarrow> origin f = origin_isb h (segment f))"
proof -
  have 1: "is_isb h f = Inr True \<longleftrightarrow>
      has_isb_landmarks h f = Inr True \<and>
      is_x_axis_postero_anterior h f = Inr True \<and>
      is_y_axis_supero_inferior h f = Inr True \<and>
      is_z_axis_medio_lateral h f = Inr True \<and>
      is_origin_isb h f = Inr True"
    by (simp add: is_isb_def and_then_True)
  have 2: "has_isb_landmarks h f = Inr True \<longleftrightarrow>
      (\<exists>ls. frame_landmarks f = Inr ls \<and> set ls = set (isb_landmarks h (segment f)))"
    unfolding has_isb_landmarks_def by (rule bind_result_Inr_bool)
  have 3: "is_x_axis_postero_anterior h f = Inr True \<longleftrightarrow> principal_direction h (x_axis f) = Inr plusX"
    unfolding is_x_axis_postero_anterior_def by (simp add: bind_result_Inr_bool)
  have 4: "is_y_axis_supero_inferior h f = Inr True \<longleftrightarrow> principal_direction h (y_axis f) = Inr plusY"
    unfolding is_y_axis_supero_inferior_def by (simp add: bind_result_Inr_bool)
  have 5: "is_z_axis_medio_lateral h f = Inr True \<longleftrightarrow> principal_direction h (z_axis f) = Inr plusZ"
    unfolding is_z_axis_medio_lateral_def by (simp add: bind_result_Inr_bool)
  have 6: "is_origin_isb h f = Inr True \<longleftrightarrow> origin f = origin_isb h (segment f)"
    by (simp add: is_origin_isb_def)
  from 1 2 3 4 5 6 show ?thesis by (intro conjI)
qed

theorem is_isb_iff_five_components_witness:
  "is_isb example_frame_helpers example_frame = Inr True \<and>
   has_isb_landmarks example_frame_helpers example_frame = Inr True \<and>
   frame_landmarks example_frame = Inr [Landmark ''O'', Landmark ''Y'', Landmark ''Z''] \<and>
   principal_direction example_frame_helpers (x_axis example_frame) = Inr plusX \<and>
   principal_direction example_frame_helpers (y_axis example_frame) = Inr plusY \<and>
   principal_direction example_frame_helpers (z_axis example_frame) = Inr plusZ \<and>
   origin example_frame = origin_isb example_frame_helpers (segment example_frame)"
proof -
  have lm: "frame_landmarks example_frame = Inr [Landmark ''O'', Landmark ''Y'', Landmark ''Z'']"
    by (simp add: frame_landmarks_def example_frame_def from_yz_def)
  have l: "has_isb_landmarks example_frame_helpers example_frame = Inr True"
    by (auto simp: has_isb_landmarks_def lm example_frame_helpers_def)
  have x: "is_x_axis_postero_anterior example_frame_helpers example_frame = Inr True"
    by (simp add: is_x_axis_postero_anterior_def principal_direction_def example_frame_def from_yz_def
        example_frame_helpers_def example_get_constant_def np_sub_def)
  have y: "is_y_axis_supero_inferior example_frame_helpers example_frame = Inr True"
    by (simp add: is_y_axis_supero_inferior_def principal_direction_def example_frame_def from_yz_def
        example_frame_helpers_def example_get_constant_def np_sub_def)
  have z: "is_z_axis_medio_lateral example_frame_helpers example_frame = Inr True"
    by (simp add: is_z_axis_medio_lateral_def principal_direction_def example_frame_def from_yz_def
        example_frame_helpers_def example_get_constant_def np_sub_def)
  have o: "is_origin_isb example_frame_helpers example_frame = Inr True"
    by (simp add: is_origin_isb_def example_frame_def from_yz_def example_frame_helpers_def)
  from is_isb_iff_five_components [of example_frame_helpers example_frame] l x y z o lm
  show ?thesis by simp
qed

subsection \<open>Dividing a vector by its norm\<close>

lemma sum_of_squares_pos:
  fixes x y z :: real
  assumes "x \<noteq> 0 \<or> y \<noteq> 0 \<or> z \<noteq> 0"
  shows "0 < x * x + y * y + z * z"
proof -
  have nonneg: "0 \<le> x * x" "0 \<le> y * y" "0 \<le> z * z" by simp_all
  have pos: "\<And>w::real. w \<noteq> 0 \<Longrightarrow> 0 < w * w" by (auto simp: zero_less_mult_iff neq_iff)
  from assms consider "x \<noteq> 0" | "y \<noteq> 0" | "z \<noteq> 0" by blast
  then show ?thesis
  proof cases
    case 1
    with pos have "0 < x * x" by blast
    with nonneg show ?thesis by linarith
  next
    case 2
    with pos have "0 < y * y" by blast
    with nonneg show ?thesis by linarith
  next
    case 3
    with pos have "0 < z * z" by blast
    with nonneg show ?thesis by linarith
  qed
qed

lemma over_norm_unit:
  assumes "x \<noteq> 0 \<or> y \<noteq> 0 \<or> z \<noteq> 0"
  shows "\<exists>a b c. over_norm (Vec3 x y z) = Vec3 a b c \<and> a * a + b * b + c * c = 1"
proof -
  define s where "s = x * x + y * y + z * z"
  define n where "n = sqrt s"
  have s: "0 < s" unfolding s_def using assms by (rule sum_of_squares_pos)
  then have n: "n \<noteq> 0" and nn: "n * n = s" by (simp_all add: n_def)
  have "(x / n) * (x / n) + (y / n) * (y / n) + (z / n) * (z / n) = s / (n * n)"
    by (simp add: s_def add_divide_distrib)
  also have "\<dots> = 1" using s nn by simp
  finally have unit: "(x / n) * (x / n) + (y / n) * (y / n) + (z / n) * (z / n) = 1" .
  have "over_norm (Vec3 x y z) = Vec3 (x / n) (y / n) (z / n)"
    using n by (simp add: Let_def n_def s_def)
  with unit show ?thesis by blast
qed

lemma over_norm_zero: "over_norm (Vec3 0 0 0) = NaN3"
  by simp

lemma compute_default_vector_raises_only_attribute_error:
  "compute_default_vector h v = Inl err \<Longrightarrow> err = AttributeError"
proof (induction v arbitrary: err)
  case NoVector
  then show ?case by simp
next
  case (StartEndVector s e)
  then show ?case by simp
next
  case (CrossedVector v1 v2)
  show ?case
  proof (cases "compute_default_vector h v1")
    case (Inl e1)
    with CrossedVector.prems have "err = e1" by simp
    with CrossedVector.IH(1) Inl show ?thesis by blast
  next
    case (Inr a)
    note a = this
    show ?thesis
    proof (cases "compute_default_vector h v2")
      case (Inl e2)
      with CrossedVector.prems a have "err = e2" by simp
      with CrossedVector.IH(2) Inl show ?thesis by blast
    next
      case (Inr b)
      with CrossedVector.prems a show ?thesis by simp
    qed
  qed
qed

text \<open>
  C7, as stated, fails: a start/end vector between a landmark and itself is degenerate,
  and \<^verbatim>\<open>compute_default_vector\<close> returns an array of NaN for it instead of raising.
\<close>

theorem degenerate_vector_returns_nan_counterexample:
  "compute_default_vector example_frame_helpers
     (StartEndVector (Landmark ''X'') (Landmark ''X'')) = Inr NaN3"
  by (simp add: example_frame_helpers_def example_get_constant_def np_sub_def)

text \<open>
  C7, amended.  \<^verbatim>\<open>compute_default_vector\<close> divides the landmark difference, or the cross
  product of the operands' default vectors, by its norm without testing the norm.  When
  that vector is not zero the result has unit norm; when it is zero (equal reference
  positions, parallel operands) or already NaN, the result is the NaN array and nothing
  is raised.  The only exception the method raises is the \<^verbatim>\<open>AttributeError\<close> of a
  \<^verbatim>\<open>None\<close> operand.
\<close>

theorem compute_default_vector_divides_unguarded:
  "(get_constant h e \<noteq> get_constant h s \<longrightarrow>
      (\<exists>a b c. compute_default_vector h (StartEndVector s e) = Inr (Vec3 a b c) \<and>
                a * a + b * b + c * c = 1)) \<and>
   (get_constant h e' = get_constant h s' \<longrightarrow>
      compute_default_vector h (StartEndVector s' e') = Inr NaN3) \<and>
   (compute_default_vector h v1 = Inr p \<and> compute_default_vector h v2 = Inr q \<and>
    np_cross p q \<noteq> NaN3 \<and> np_cross p q \<noteq> Vec3 0 0 0 \<longrightarrow>
      (\<exists>a b c. compute_default_vector h (CrossedVector v1 v2) = Inr (Vec3 a b c) \<and>
                a * a + b * b + c * c = 1)) \<and>
   (compute_default_vector h w1 = Inr p' \<and> compute_default_vector h w2 = Inr q' \<and>
    (np_cross p' q' = NaN3 \<or> np_cross p' q' = Vec3 0 0 0) \<longrightarrow>
      compute_default_vector h (CrossedVector w1 w2) = Inr NaN3) \<and>
   (compute_default_vector h v = Inl err \<longrightarrow> err = AttributeError)"
proof (intro conjI impI)
  assume ne: "get_constant h e \<noteq> get_constant h s"
  obtain e1 e2 e3 where e: "get_constant h e = (e1, e2, e3)" by (cases "get_constant h e") auto
  obtain s1 s2 s3 where s: "get_constant h s = (s1, s2, s3)" by (cases "get_constant h s") auto
  from ne e s have "e1 - s1 \<noteq> 0 \<or> e2 - s2 \<noteq> 0 \<or> e3 - s3 \<noteq> 0" by auto
  from over_norm_unit [OF this]
  show "\<exists>a b c. compute_default_vector h (StartEndVector s e) = Inr (Vec3 a b c) \<and>
                a * a + b * b + c * c = 1"
    by (simp add: e s np_sub_def)
next
  assume eq: "get_constant h e' = get_constant h s'"
  obtain s1 s2 s3 where "get_constant h s' = (s1, s2, s3)" by (cases "get_constant h s'") auto
  with eq show "compute_default_vector h (StartEndVector s' e') = Inr NaN3"
    by (simp add: np_sub_def)
next
  assume a: "compute_default_vector h v1 = Inr p \<and> compute_default_vector h v2 = Inr q \<and>
             np_cross p q \<noteq> NaN3 \<and> np_cross p q \<noteq> Vec3 0 0 0"
  then obtain x y z where c: "np_cross p q = Vec3 x y z" by (cases "np_cross p q") auto
  with a have "x \<noteq> 0 \<or> y \<noteq> 0 \<or> z \<noteq> 0" by auto
  from over_norm_unit [OF this] a c
  show "\<exists>a b c. compute_default_vector h (CrossedVector v1 v2) = Inr (Vec3 a b c) \<and>
                a * a + b * b + c * c = 1"
    by simp
next
  assume "compute_default_vector h w1 = Inr p' \<and> compute_default_vector h w2 = Inr q' \<and>
          (np_cross p' q' = NaN3 \<or> np_cross p' q' = Vec3 0 0 0)"
  then show "compute_default_vector h (CrossedVector w1 w2) = Inr NaN3"
    by auto
next
  assume "compute_default_vector h v = Inl err"
  then show "err = AttributeError"
    by (rule compute_default_vector_raises_only_attribute_error)
qed

theorem compute_default_vector_divides_unguarded_witness:
  "get_constant example_frame_helpers (Landmark ''X'') \<noteq>
     get_constant example_frame_helpers (Landmark ''O'') \<and>
   compute_default_vector example_frame_helpers
     (StartEndVector (Landmark ''O'') (Landmark ''X'')) = Inr (Vec3 1 0 0) \<and>
   compute_default_vector example_frame_helpers
     (StartEndVector (Landmark ''X'') (Landmark ''X'')) = Inr NaN3 \<and>
   compute_default_vector example_frame_helpers
     (StartEndVector (Landmark ''O'') (Landmark ''Y'')) = Inr (Vec3 0 1 0) \<and>
   np_cross (Vec3 1 0 0) (Vec3 0 1 0) = Vec3 0 0 1 \<and>
   (\<exists>a b c. compute_default_vector example_frame_helpers
       (CrossedVector (StartEndVector (Landmark ''O'') (Landmark ''X''))
                      (StartEndVector (Landmark ''O'') (Landmark ''Y''))) = Inr (Vec3 a b c) \<and>
       a * a + b * b + c * c = 1) \<and>
   np_cross (Vec3 1 0 0) (Vec3 1 0 0) = Vec3 0 0 0 \<and>
   compute_default_vector example_frame_helpers
     (CrossedVector (StartEndVector (Landmark ''O'') (Landmark ''X''))
                    (StartEndVector (Landmark ''O'') (Landmark ''X''))) = Inr NaN3 \<and>
   compute_default_vector example_frame_helpers NoVector = Inl AttributeError"
proof -
  have ne: "get_constant example_frame_helpers (Landmark ''X'') \<noteq>
            get_constant example_frame_helpers (Landmark ''O'')"
    by (simp add: example_frame_helpers_def example_get_constant_def)
  have eq: "get_constant example_frame_helpers (Landmark ''X'') =
            get_constant example_frame_helpers (Landmark ''X'')"
    by simp
  have ox: "compute_default_vector example_frame_helpers
              (StartEndVector (Landmark ''O'') (Landmark ''X'')) = Inr (Vec3 1 0 0)"
    by (simp add: example_frame_helpers_def example_get_constant_def np_sub_def)
  have oy: "compute_default_vector example_frame_helpers
              (StartEndVector (Landmark ''O'') (Landmark ''Y'')) = Inr (Vec3 0 1 0)"
    by (simp add: example_frame_helpers_def example_get_constant_def np_sub_def)
  have c1: "np_cross (Vec3 1 0 0) (Vec3 0 1 0) = Vec3 0 0 1" by simp
  have c2: "np_cross (Vec3 1 0 0) (Vec3 1 0 0) = Vec3 0 0 0" by simp
  have n: "compute_default_vector example_frame_helpers NoVector = Inl AttributeError" by simp
  note t = compute_default_vector_divides_unguarded
    [of example_frame_helpers "Landmark ''X''" "Landmark ''O''" "Landmark ''X''" "Landmark ''X''"
        "StartEndVector (Landmark ''O'') (Landmark ''X'')" "Vec3 1 0 0"
        "StartEndVector (Landmark ''O'') (Landmark ''Y'')" "Vec3 0 1 0"
        "StartEndVector (Landmark ''O'') (Landmark ''X'')" "Vec3 1 0 0"
        "StartEndVector (Landmark ''O'') (Landmark ''X'')" "Vec3 1 0 0"
        NoVector AttributeError]
  have d: "compute_default_vector example_frame_helpers
             (StartEndVector (Landmark ''X'') (Landmark ''X'')) = Inr NaN3"
    using t eq by blast
  have u: "\<exists>a b c. compute_default_vector example_frame_helpers
       (CrossedVector (StartEndVector (Landmark ''O'') (Landmark ''X''))
                      (StartEndVector (Landmark ''O'') (Landmark ''Y''))) = Inr (Vec3 a b c) \<and>
       a * a + b * b + c * c = 1"
    using t ox oy c1 by (simp del: compute_default_vector.simps np_cross.simps)
  have z: "compute_default_vector example_frame_helpers
     (CrossedVector (StartEndVector (Landmark ''O'') (Landmark ''X''))
                    (StartEndVector (Landmark ''O'') (Landmark ''X''))) = Inr NaN3"
    using t ox c2 by (simp del: compute_default_vector.simps np_cross.simps)
  from ne ox d oy c1 u c2 z n show ?thesis by blast
qed

text \<open>
  C8.  When no token is one of the once-crossed forms and none of the three
  twice-crossed substring patterns holds, \<^verbatim>\<open>from_xyz_string\<close> raises \<^verbatim>\<open>ValueError\<close>, the
  code's exception for a malformed descriptor.
\<close>

theorem unrecognised_axis_tokens_raise:
  assumes "x \<noteq> ''y^z''" and "y \<noteq> ''z^x''" and "z \<noteq> ''x^y''"
    and "\<not> (str_in ''x^'' z \<and> str_in ''^x'' y)"
    and "\<not> (str_in ''y^'' x \<and> str_in ''^y'' z)"
    and "\<not> (str_in ''z^'' y \<and> str_in ''^z'' x)"
  shows "from_xyz_string h x y z orig seg = Inl ValueError"
proof -
  from assms(4-6) have "\<not> is_one_axis_crossed_twice x y z"
    by (simp add: is_one_axis_crossed_twice_def is_x_axis_crossed_twice_def
        is_y_axis_crossed_twice_def is_z_axis_crossed_twice_def)
  moreover from assms(1-3) have "from_once_crossed h x y z orig seg = Inl ValueError"
    by (simp add: from_once_crossed_def)
  ultimately show ?thesis by (simp add: from_xyz_string_def)
qed

theorem unrecognised_axis_tokens_raise_witness:
  "''vec(IJ>PX)'' \<noteq> ''y^z'' \<and> ''vec(T8>C7)'' \<noteq> ''z^x'' \<and> ''vec(IJ>SC)'' \<noteq> ''x^y'' \<and>
   \<not> (str_in ''x^'' ''vec(IJ>SC)'' \<and> str_in ''^x'' ''vec(T8>C7)'') \<and>
   \<not> (str_in ''y^'' ''vec(IJ>PX)'' \<and> str_in ''^y'' ''vec(IJ>SC)'') \<and>
   \<not> (str_in ''z^'' ''vec(T8>C7)'' \<and> str_in ''^z'' ''vec(IJ>PX)'') \<and>
   from_xyz_string example_frame_helpers ''vec(IJ>PX)'' ''vec(T8>C7)'' ''vec(IJ>SC)'' ''IJ'' THORAX =
     Inl ValueError"
proof -
  have a: "''vec(IJ>PX)'' \<noteq> ''y^z''" "''vec(T8>C7)'' \<noteq> ''z^x''" "''vec(IJ>SC)'' \<noteq> ''x^y''"
    by simp_all
  have x: "\<not> (str_in ''x^'' ''vec(IJ>SC)'' \<and> str_in ''^x'' ''vec(T8>C7)'')" by simp
  have y: "\<not> (str_in ''y^'' ''vec(IJ>PX)'' \<and> str_in ''^y'' ''vec(IJ>SC)'')" by simp
  have z: "\<not> (str_in ''z^'' ''vec(T8>C7)'' \<and> str_in ''^z'' ''vec(IJ>PX)'')" by simp
  from unrecognised_axis_tokens_raise [OF a x y z, of example_frame_helpers "''IJ''" THORAX] a x y z
  show ?thesis by blast
qed

text \<open>
  C9, as stated, fails: the x-crossed-twice test comes first.  With \<^verbatim>\<open>y^\<close> in the x
  token and \<^verbatim>\<open>^y\<close> in the z token, but also \<^verbatim>\<open>x^\<close> in the z token and \<^verbatim>\<open>^x\<close> in the y
  token, \<^verbatim>\<open>from_twice_crossed\<close> takes the x branch, parses the x token and raises.
\<close>

theorem y_pattern_shadowed_counterexample:
  "str_in ''y^'' ''y^'' \<and> str_in ''^y'' ''x^y'' \<and>
   from_twice_crossed example_frame_helpers ''y^'' ''^x'' ''x^y'' ''O'' SCAPULA = Inl ValueError"
  by (simp add: from_twice_crossed_def is_x_axis_crossed_twice_def parse_axis_def
      parse_crossed_vector_def parse_vector_def parse_start_end_vector_def)

text \<open>
  C9, amended.  When the y pattern holds and the x pattern, which is tested first, does
  not, \<^verbatim>\<open>from_twice_crossed\<close> parses none of the axis tokens: it parses the origin and,
  unless that raises, returns \<^verbatim>\<open>from_y_crossed_twice(None, None, origin, segment)\<close>, a
  frame whose y axis is \<^verbatim>\<open>None\<close> and whose x and z axes are cross products of \<^verbatim>\<open>None\<close>.
\<close>

theorem y_crossed_twice_builds_null_axes:
  assumes "str_in ''y^'' x" and "str_in ''^y'' z"
    and "\<not> (str_in ''x^'' z \<and> str_in ''^x'' y)"
  shows "from_twice_crossed h x y z orig seg =
           (case landmark_from_string h orig of
              Inl e \<Rightarrow> Inl e
            | Inr l \<Rightarrow>
                Inr (Some \<lparr>origin = l,
                           x_axis = CrossedVector NoVector (CrossedVector NoVector NoVector),
                           y_axis = NoVector,
                           z_axis = CrossedVector NoVector NoVector,
                           segment = seg\<rparr>))"
proof -
  from assms(3) have nx: "\<not> is_x_axis_crossed_twice x y z"
    by (simp add: is_x_axis_crossed_twice_def)
  from assms(1,2) have y: "is_y_axis_crossed_twice x y z"
    by (simp add: is_y_axis_crossed_twice_def)
  show ?thesis
    by (cases "landmark_from_string h orig")
      (simp_all add: from_twice_crossed_def nx y from_y_crossed_twice_def from_yz_def)
qed

theorem y_crossed_twice_builds_null_axes_witness:
  "str_in ''y^'' ''y^z'' \<and> str_in ''^y'' ''x^y'' \<and>
   \<not> (str_in ''x^'' ''x^y'' \<and> str_in ''^x'' ''vec(IJ>PX)'') \<and>
   from_twice_crossed example_frame_helpers ''y^z'' ''vec(IJ>PX)'' ''x^y'' ''IJ'' THORAX =
     Inr (Some \<lparr>origin = Landmark ''IJ'',
                x_axis = CrossedVector NoVector (CrossedVector NoVector NoVector),
                y_axis = NoVector,
                z_axis = CrossedVector NoVector NoVector,
                segment = THORAX\<rparr>)"
proof -
  have a: "str_in ''y^'' ''y^z''" and b: "str_in ''^y'' ''x^y''"
    and c: "\<not> (str_in ''x^'' ''x^y'' \<and> str_in ''^x'' ''vec(IJ>PX)'')"
    by simp_all
  from y_crossed_twice_builds_null_axes [OF a b c, of example_frame_helpers "''IJ''" THORAX] a b c
  show ?thesis by (simp add: example_frame_helpers_def)
qed

end
